theory Spec2Isabelle
  imports Main "HOL-Library.Sublist" "HOL-Library.AList"
begin

section \<open>JSON values and the runtime\<close>

text \<open>
  The values that \<^verbatim>\<open>JSON.parse\<close> produces and \<^verbatim>\<open>JSON.stringify\<close> accepts. An object is the
  list of its own enumerable properties in the order \<^verbatim>\<open>Object.entries\<close> yields them. A
  string is a list of characters, one \<^typ>\<open>char\<close> for each code unit of the JavaScript string
  (code units above 255 are outside the model). Numbers are carried around untouched by the
  code under study except for the status and the timestamp, which are integers.
\<close>

datatype json =
    JNull
  | JBool bool
  | JNum int
  | JStr string
  | JArr "json list"
  | JObj "(string \<times> json) list"

text \<open>
  The built-ins of the JavaScript runtime that the source calls and that are not part of
  the repository are parameters of the model:
  \<^item> \<open>sha256_hex s\<close> is \<^verbatim>\<open>createHash('sha256').update(s).digest('hex')\<close>;
  \<^item> \<open>JSON_stringify v\<close> is \<^verbatim>\<open>JSON.stringify(v)\<close> and \<open>JSON_stringify_pretty v\<close> is
    \<^verbatim>\<open>JSON.stringify(v, null, 2)\<close>;
  \<^item> \<open>JSON_parse s\<close> is \<^verbatim>\<open>JSON.parse(s)\<close>, \<open>None\<close> when it throws a SyntaxError;
  \<^item> \<open>String_of v\<close> is \<^verbatim>\<open>String(v)\<close> on numbers, arrays and objects;
  \<^item> \<open>toISOString t\<close> is \<^verbatim>\<open>new Date(t).toISOString()\<close>.
\<close>

record runtime =
  sha256_hex :: "string \<Rightarrow> string"
  JSON_stringify :: "json \<Rightarrow> string"
  JSON_stringify_pretty :: "json \<Rightarrow> string"
  JSON_parse :: "string \<Rightarrow> json option"
  String_of :: "json \<Rightarrow> string"
  toISOString :: "int \<Rightarrow> string"

text \<open>JavaScript truthiness of a JSON value (\<^verbatim>\<open>if (x)\<close>, \<^verbatim>\<open>x && ...\<close>).\<close>

fun truthy :: "json \<Rightarrow> bool" where
  "truthy JNull = False"
| "truthy (JBool b) = b"
| "truthy (JNum n) = (n \<noteq> 0)"
| "truthy (JStr s) = (s \<noteq> [])"
| "truthy (JArr xs) = True"
| "truthy (JObj kvs) = True"

text \<open>\<^verbatim>\<open>typeof x === 'object'\<close> holds of \<^verbatim>\<open>null\<close>, arrays and objects.\<close>

fun typeof_object :: "json \<Rightarrow> bool" where
  "typeof_object JNull = True"
| "typeof_object (JArr xs) = True"
| "typeof_object (JObj kvs) = True"
| "typeof_object v = False"

text \<open>\<^verbatim>\<open>String(n)\<close> of a natural number: its decimal digits.\<close>

fun show_nat :: "nat \<Rightarrow> string" where
  "show_nat n =
     (if n < 10 then [''0123456789'' ! n] else show_nat (n div 10) @ [''0123456789'' ! (n mod 10)])"

declare show_nat.simps [simp del]

text \<open>\<^verbatim>\<open>s.indexOf(pat)\<close>: the position of the first occurrence, \<open>None\<close> for \<^verbatim>\<open>-1\<close>.\<close>

fun indexOf :: "string \<Rightarrow> string \<Rightarrow> nat option" where
  "indexOf pat [] = (if pat = [] then Some 0 else None)"
| "indexOf pat (c # cs) =
     (if prefix pat (c # cs) then Some 0 else map_option Suc (indexOf pat cs))"

section \<open>The file system, the clock and the console\<close>

text \<open>
  A path names a regular file with its text, a directory, or nothing. \<^verbatim>\<open>existsSync\<close> is
  true of files and directories; \<^verbatim>\<open>readFileSync\<close> throws unless the path is a regular file.
  Writes are modelled on a file system that accepts them (a full disk, missing permissions
  and writes through a path that is not a directory are environment failures that the
  source lets propagate). \<^verbatim>\<open>path.join\<close> is concatenation with a separator; the normalisation
  of \<^verbatim>\<open>..\<close> segments is not modelled.
\<close>

datatype node = File string | Dir

datatype error =
    SyntaxError
  | FsError string
  | TypeError string
  | NetworkError string

text \<open>
  The fields \<^verbatim>\<open>method\<close> and \<^verbatim>\<open>body\<close> of \<^verbatim>\<open>RequestInit\<close>, the two that the source reads; the body
  is a string when present.
\<close>

record RequestInit =
  init_method :: "string option"
  init_body :: "string option"

text \<open>
  The world a call runs in: the files, \<^verbatim>\<open>Date.now()\<close>, the lines written to the console, and
  the calls that reached the real transport, in order.
\<close>

record world =
  fs :: "string \<Rightarrow> node option"
  clock :: int
  console :: "string list"
  net_log :: "(string \<times> RequestInit option) list"

definition join :: "string \<Rightarrow> string \<Rightarrow> string" where
  "join dir name = dir @ ''/'' @ name"

definition dirname :: "string \<Rightarrow> string" where
  "dirname p =
     (if CHR ''/'' \<in> set p
      then (let d = rev (tl (dropWhile (\<lambda>c. c \<noteq> CHR ''/'') (rev p)))
            in if d = [] then ''/'' else d)
      else ''.'')"

definition existsSync :: "world \<Rightarrow> string \<Rightarrow> bool" where
  "existsSync w p = (fs w p \<noteq> None)"

definition readFileSync :: "world \<Rightarrow> string \<Rightarrow> error + string" where
  "readFileSync w p = (case fs w p of Some (File c) \<Rightarrow> Inr c | _ \<Rightarrow> Inl (FsError p))"

definition writeFileSync :: "string \<Rightarrow> string \<Rightarrow> world \<Rightarrow> world" where
  "writeFileSync p c w = w\<lparr>fs := (fs w)(p \<mapsto> File c)\<rparr>"

text \<open>The directories that \<^verbatim>\<open>mkdirSync(p, {recursive: true})\<close> makes sure of: \<open>p\<close> and its ancestors.\<close>

definition ancestors :: "string \<Rightarrow> string list" where
  "ancestors p = filter (\<lambda>q. q \<noteq> [] \<and> (q = p \<or> p ! length q = CHR ''/'')) (prefixes p)"

definition mkdirSync :: "string \<Rightarrow> world \<Rightarrow> world" where
  "mkdirSync p w =
     w\<lparr>fs := fold (\<lambda>q m. if m q = None then m(q \<mapsto> Dir) else m) (ancestors p) (fs w)\<rparr>"

definition console_log :: "string \<Rightarrow> world \<Rightarrow> world" where
  "console_log line w = w\<lparr>console := console w @ [line]\<rparr>"

section \<open>json-sidecar.ts\<close>

definition SIDECAR_MARKER :: string where
  "SIDECAR_MARKER = ''__SIDECAR__:''"

definition DEFAULT_THRESHOLD :: int where
  "DEFAULT_THRESHOLD = 1000"

record SidecarOptions =
  sidecarDir :: "string option"
  threshold :: "int option"

text \<open>
  \<^verbatim>\<open>value.match(/^(data:[^;]+;base64,)(.+)$/)\<close>: after \<^verbatim>\<open>data:\<close> the longest run of
  characters other than \<^verbatim>\<open>;\<close> must be non-empty and be followed by \<^verbatim>\<open>;base64,\<close>; the rest must
  be non-empty and free of line terminators, which \<^verbatim>\<open>.\<close> does not match (of the four line
  terminators of JavaScript the two below 256 are in the model). The result is the pair of
  the two groups.
\<close>

definition line_terminator :: "char \<Rightarrow> bool" where
  "line_terminator c = (c = CHR 0x0A \<or> c = CHR 0x0D)"

definition match_DATA_URL_REGEX :: "string \<Rightarrow> (string \<times> string) option" where
  "match_DATA_URL_REGEX v =
     (if prefix ''data:'' v
      then (let rest = drop 5 v;
                media = takeWhile (\<lambda>c. c \<noteq> CHR '';'') rest;
                after = dropWhile (\<lambda>c. c \<noteq> CHR '';'') rest;
                payload = drop 8 after
            in if media \<noteq> [] \<and> prefix '';base64,'' after \<and> payload \<noteq> []
                  \<and> \<not> list_ex line_terminator payload
               then Some (''data:'' @ media @ '';base64,'', payload)
               else None)
      else None)"

definition hashValue :: "runtime \<Rightarrow> string \<Rightarrow> string" where
  "hashValue rt v = take 12 (sha256_hex rt v)"

definition hasSidecarRef :: "string \<Rightarrow> bool" where
  "hasSidecarRef v = (indexOf SIDECAR_MARKER v \<noteq> None)"

definition makeSidecarRef :: "string \<Rightarrow> string" where
  "makeSidecarRef hash = SIDECAR_MARKER @ hash"

definition extractSidecarHash :: "string \<Rightarrow> string option" where
  "extractSidecarHash ref =
     (case indexOf SIDECAR_MARKER ref of
        None \<Rightarrow> None
      | Some idx \<Rightarrow> Some (drop (idx + length SIDECAR_MARKER) ref))"

text \<open>The result is the pair \<^verbatim>\<open>{ref, content}\<close>.\<close>

definition processLargeString :: "runtime \<Rightarrow> string \<Rightarrow> string \<times> string" where
  "processLargeString rt v =
     (case match_DATA_URL_REGEX v of
        Some (pre, base64Data) \<Rightarrow> (pre @ makeSidecarRef (hashValue rt base64Data), base64Data)
      | None \<Rightarrow> (makeSidecarRef (hashValue rt v), v))"

text \<open>
  \<^verbatim>\<open>!hash\<close> holds of \<^verbatim>\<open>null\<close> and of the empty string. The result carries the error of a
  failed read, which the source does not catch, and the world with the warning logged.
\<close>

definition restoreSidecarRef :: "string \<Rightarrow> string \<Rightarrow> world \<Rightarrow> (error + string) \<times> world" where
  "restoreSidecarRef v dir w =
     (case extractSidecarHash v of
        None \<Rightarrow> (Inr v, w)
      | Some hash \<Rightarrow>
          if hash = [] then (Inr v, w)
          else (let sidecarPath = join dir (hash @ ''.sidecar'') in
            if \<not> existsSync w sidecarPath
            then (Inr v, console_log (''Sidecar file not found: '' @ sidecarPath) w)
            else (case readFileSync w sidecarPath of
                    Inl e \<Rightarrow> (Inl e, w)
                  | Inr content \<Rightarrow>
                      (case indexOf SIDECAR_MARKER v of
                         Some markerIdx \<Rightarrow>
                           if 0 < markerIdx then (Inr (take markerIdx v @ content), w)
                           else (Inr content, w)
                       | None \<Rightarrow> (Inr content, w)))))"

text \<open>
  The replacer of \<^verbatim>\<open>stringify\<close>; \<open>sidecars\<close> is the \<^verbatim>\<open>Map\<close> it fills, an association list
  in insertion order (\<^verbatim>\<open>Map.set\<close> on a key already there keeps the key's place).
\<close>

definition replacer ::
  "runtime \<Rightarrow> int \<Rightarrow> json \<Rightarrow> (string \<times> string) list \<Rightarrow> json \<times> (string \<times> string) list" where
  "replacer rt thr val sidecars =
     (case val of
        JStr s \<Rightarrow>
          if thr < int (length s)
          then (case processLargeString rt s of
                  (ref, content) \<Rightarrow>
                    (JStr ref,
                     (case extractSidecarHash ref of
                        None \<Rightarrow> sidecars
                      | Some hash \<Rightarrow>
                          if hash \<noteq> [] then AList.update (hash @ ''.sidecar'') content sidecars
                          else sidecars)))
          else (val, sidecars)
      | _ \<Rightarrow> (val, sidecars))"

text \<open>
  \<^verbatim>\<open>JSON.stringify(value, replacer, 2)\<close> calls the replacer on every property value, parents
  before children and siblings in order, and serialises what it returns. This replacer
  returns arrays and objects as they are, so the descent goes on into their own children.
  \<open>stringify_walk\<close> is that traversal; it yields the value to serialise and the filled map.
\<close>

fun stringify_walk ::
    "runtime \<Rightarrow> int \<Rightarrow> json \<Rightarrow> (string \<times> string) list \<Rightarrow> json \<times> (string \<times> string) list"
  and stringify_walk_list ::
    "runtime \<Rightarrow> int \<Rightarrow> json list \<Rightarrow> (string \<times> string) list \<Rightarrow> json list \<times> (string \<times> string) list"
  and stringify_walk_fields ::
    "runtime \<Rightarrow> int \<Rightarrow> (string \<times> json) list \<Rightarrow> (string \<times> string) list
       \<Rightarrow> (string \<times> json) list \<times> (string \<times> string) list" where
  "stringify_walk rt thr (JArr xs) sc =
     (case stringify_walk_list rt thr xs sc of (xs', sc') \<Rightarrow> (JArr xs', sc'))"
| "stringify_walk rt thr (JObj kvs) sc =
     (case stringify_walk_fields rt thr kvs sc of (kvs', sc') \<Rightarrow> (JObj kvs', sc'))"
| "stringify_walk rt thr JNull sc = replacer rt thr JNull sc"
| "stringify_walk rt thr (JBool b) sc = replacer rt thr (JBool b) sc"
| "stringify_walk rt thr (JNum n) sc = replacer rt thr (JNum n) sc"
| "stringify_walk rt thr (JStr s) sc = replacer rt thr (JStr s) sc"
| "stringify_walk_list rt thr [] sc = ([], sc)"
| "stringify_walk_list rt thr (x # xs) sc =
     (case stringify_walk rt thr x sc of
        (x', sc1) \<Rightarrow> (case stringify_walk_list rt thr xs sc1 of (xs', sc2) \<Rightarrow> (x' # xs', sc2)))"
| "stringify_walk_fields rt thr [] sc = ([], sc)"
| "stringify_walk_fields rt thr ((k, v) # kvs) sc =
     (case stringify_walk rt thr v sc of
        (v', sc1) \<Rightarrow>
          (case stringify_walk_fields rt thr kvs sc1 of (kvs', sc2) \<Rightarrow> ((k, v') # kvs', sc2)))"

text \<open>The loop that writes the sidecar files, in the order of the map.\<close>

fun write_sidecars :: "string \<Rightarrow> (string \<times> string) list \<Rightarrow> world \<Rightarrow> world" where
  "write_sidecars dir [] w = w"
| "write_sidecars dir ((filename, content) # rest) w =
     write_sidecars dir rest (writeFileSync (join dir filename) content w)"

definition stringify :: "runtime \<Rightarrow> json \<Rightarrow> string \<Rightarrow> SidecarOptions \<Rightarrow> world \<Rightarrow> string \<times> world" where
  "stringify rt v mainFilePath opts w =
     (let thr = (case threshold opts of None \<Rightarrow> DEFAULT_THRESHOLD | Some t \<Rightarrow> t);
          dir = (case sidecarDir opts of None \<Rightarrow> dirname mainFilePath | Some d \<Rightarrow> d);
          w1 = (if \<not> existsSync w dir then mkdirSync dir w else w)
      in case stringify_walk rt thr v [] of
           (v', sidecars) \<Rightarrow> (JSON_stringify_pretty rt v', write_sidecars dir sidecars w1))"

text \<open>
  \<^verbatim>\<open>JSON.parse(json, reviver)\<close> parses the whole text first and then calls the reviver on
  every property value, children before parents and siblings in order. This reviver returns
  everything but strings as it is. \<open>parse_walk\<close> is that traversal; an error is the exception
  of a failed sidecar read.
\<close>

definition reviver :: "string \<Rightarrow> json \<Rightarrow> world \<Rightarrow> (error + json) \<times> world" where
  "reviver dir val w =
     (case val of
        JStr s \<Rightarrow>
          if hasSidecarRef s
          then (case restoreSidecarRef s dir w of
                  (Inl e, w') \<Rightarrow> (Inl e, w')
                | (Inr s', w') \<Rightarrow> (Inr (JStr s'), w'))
          else (Inr val, w)
      | _ \<Rightarrow> (Inr val, w))"

fun parse_walk :: "string \<Rightarrow> json \<Rightarrow> world \<Rightarrow> (error + json) \<times> world"
  and parse_walk_list :: "string \<Rightarrow> json list \<Rightarrow> world \<Rightarrow> (error + json list) \<times> world"
  and parse_walk_fields ::
    "string \<Rightarrow> (string \<times> json) list \<Rightarrow> world \<Rightarrow> (error + (string \<times> json) list) \<times> world" where
  "parse_walk dir (JArr xs) w =
     (case parse_walk_list dir xs w of
        (Inl e, w') \<Rightarrow> (Inl e, w')
      | (Inr xs', w') \<Rightarrow> reviver dir (JArr xs') w')"
| "parse_walk dir (JObj kvs) w =
     (case parse_walk_fields dir kvs w of
        (Inl e, w') \<Rightarrow> (Inl e, w')
      | (Inr kvs', w') \<Rightarrow> reviver dir (JObj kvs') w')"
| "parse_walk dir JNull w = reviver dir JNull w"
| "parse_walk dir (JBool b) w = reviver dir (JBool b) w"
| "parse_walk dir (JNum n) w = reviver dir (JNum n) w"
| "parse_walk dir (JStr s) w = reviver dir (JStr s) w"
| "parse_walk_list dir [] w = (Inr [], w)"
| "parse_walk_list dir (x # xs) w =
     (case parse_walk dir x w of
        (Inl e, w1) \<Rightarrow> (Inl e, w1)
      | (Inr x', w1) \<Rightarrow>
          (case parse_walk_list dir xs w1 of
             (Inl e, w2) \<Rightarrow> (Inl e, w2)
           | (Inr xs', w2) \<Rightarrow> (Inr (x' # xs'), w2)))"
| "parse_walk_fields dir [] w = (Inr [], w)"
| "parse_walk_fields dir ((k, v) # kvs) w =
     (case parse_walk dir v w of
        (Inl e, w1) \<Rightarrow> (Inl e, w1)
      | (Inr v', w1) \<Rightarrow>
          (case parse_walk_fields dir kvs w1 of
             (Inl e, w2) \<Rightarrow> (Inl e, w2)
           | (Inr kvs', w2) \<Rightarrow> (Inr ((k, v') # kvs'), w2)))"

definition parse :: "runtime \<Rightarrow> string \<Rightarrow> string \<Rightarrow> SidecarOptions \<Rightarrow> world \<Rightarrow> (error + json) \<times> world" where
  "parse rt text mainFilePath opts w =
     (let dir = (case sidecarDir opts of None \<Rightarrow> dirname mainFilePath | Some d \<Rightarrow> d)
      in case JSON_parse rt text of
           None \<Rightarrow> (Inl SyntaxError, w)
         | Some v \<Rightarrow> parse_walk dir v w)"

definition writeFile :: "runtime \<Rightarrow> string \<Rightarrow> json \<Rightarrow> SidecarOptions \<Rightarrow> world \<Rightarrow> world" where
  "writeFile rt filePath v opts w =
     (case stringify rt v filePath opts w of (text, w') \<Rightarrow> writeFileSync filePath text w')"

definition readFile :: "runtime \<Rightarrow> string \<Rightarrow> SidecarOptions \<Rightarrow> world \<Rightarrow> (error + json) \<times> world" where
  "readFile rt filePath opts w =
     (case readFileSync w filePath of
        Inl e \<Rightarrow> (Inl e, w)
      | Inr text \<Rightarrow> parse rt text filePath opts w)"

fun hasUnresolvedRefs :: "json \<Rightarrow> bool" where
  "hasUnresolvedRefs (JStr s) = hasSidecarRef s"
| "hasUnresolvedRefs (JArr xs) = list_ex hasUnresolvedRefs xs"
| "hasUnresolvedRefs (JObj kvs) = list_ex (\<lambda>kv. hasUnresolvedRefs (snd kv)) kvs"
| "hasUnresolvedRefs v = False"

section \<open>request-cache.ts\<close>

text \<open>The two directories, relative to the root of the package.\<close>

definition CACHE_DIR :: string where
  "CACHE_DIR = ''.cache/requests''"

definition SIDECAR_DIR :: string where
  "SIDECAR_DIR = ''.cache/sidecars''"

record CachedResponseBody =
  body_json :: "json option"
  body_text :: "string option"

record ResponseHead =
  status :: int
  statusText :: string
  headers :: "(string \<times> string) list"

record CachedResponse = ResponseHead +
  body :: CachedResponseBody
  timestamp :: int

text \<open>
  A \<^verbatim>\<open>Response\<close> as far as the source looks at it: status line, headers in the order
  \<^verbatim>\<open>forEach\<close> visits them, and the text of the body. The range checks of the
  \<^verbatim>\<open>Response\<close> constructor on the status are not modelled.
\<close>

record Response = ResponseHead +
  bodyText :: string

text \<open>
  \<^verbatim>\<open>obj[key] = value\<close> on a plain object: a new key goes to the end, a key already there
  keeps its place, and the key \<^verbatim>\<open>__proto__\<close> reaches the setter of the prototype and makes
  no own property.
\<close>

definition obj_assign :: "string \<Rightarrow> 'a \<Rightarrow> (string \<times> 'a) list \<Rightarrow> (string \<times> 'a) list" where
  "obj_assign k v ps = (if k = ''__proto__'' then ps else AList.update k v ps)"

text \<open>\<^verbatim>\<open>Object.entries\<close>: the properties of an object, the elements of an array under their indices.\<close>

fun entries :: "json \<Rightarrow> (string \<times> json) list" where
  "entries (JObj kvs) = kvs"
| "entries (JArr xs) = zip (map show_nat [0..<length xs]) xs"
| "entries v = []"

text \<open>Reading a property of a value that is not \<^verbatim>\<open>null\<close>; \<open>None\<close> is \<^verbatim>\<open>undefined\<close>.\<close>

fun get_prop :: "json \<Rightarrow> string \<Rightarrow> json option" where
  "get_prop (JObj kvs) k = map_of kvs k"
| "get_prop v k = None"

text \<open>\<^verbatim>\<open>String(v)\<close>.\<close>

fun js_String :: "runtime \<Rightarrow> json \<Rightarrow> string" where
  "js_String rt (JStr s) = s"
| "js_String rt JNull = ''null''"
| "js_String rt (JBool b) = (if b then ''true'' else ''false'')"
| "js_String rt v = String_of rt v"

definition normalizeRequestBody :: "json \<Rightarrow> json" where
  "normalizeRequestBody b =
     (if \<not> truthy b \<or> \<not> typeof_object b then b
      else JObj (fold (\<lambda>(k, v). obj_assign k v) (entries b) []))"

definition getCacheKey :: "runtime \<Rightarrow> string \<Rightarrow> json \<Rightarrow> string" where
  "getCacheKey rt url b =
     take 16 (sha256_hex rt (url @ JSON_stringify rt (normalizeRequestBody b)))"

definition getCacheFolder :: "string \<Rightarrow> string" where
  "getCacheFolder key = join CACHE_DIR key"

record CachePaths =
  folder :: string
  meta :: string
  request :: string
  response :: string

definition getCachePaths :: "string \<Rightarrow> CachePaths" where
  "getCachePaths key =
     (let f = getCacheFolder key
      in \<lparr>folder = f, meta = join f ''meta.json'', request = join f ''request.json'',
          response = join f ''response.json''\<rparr>)"

definition extractModel :: "runtime \<Rightarrow> json \<Rightarrow> string option" where
  "extractModel rt b =
     (if truthy b \<and> typeof_object b
      then map_option (js_String rt) (get_prop b ''model'')
      else None)"

definition extractProvider :: "json \<Rightarrow> json option" where
  "extractProvider b = (if truthy b \<and> typeof_object b then get_prop b ''provider'' else None)"

definition extractErrorMessage :: "CachedResponseBody \<Rightarrow> string option" where
  "extractErrorMessage b =
     (case body_json b of
        None \<Rightarrow> None
      | Some j \<Rightarrow>
          if truthy j \<and> typeof_object j
          then (case get_prop j ''error'' of
                  None \<Rightarrow> None
                | Some e \<Rightarrow>
                    if truthy e \<and> typeof_object e
                    then (case get_prop e ''message'' of Some (JStr m) \<Rightarrow> Some m | _ \<Rightarrow> None)
                    else None)
          else None)"

definition summarize :: "nat \<Rightarrow> string \<Rightarrow> string" where
  "summarize maxLen str = (if maxLen < length str then take maxLen str @ ''...'' else str)"

definition getResponseSummary :: "runtime \<Rightarrow> CachedResponseBody \<Rightarrow> string" where
  "getResponseSummary rt b =
     (if (case body_json b of None \<Rightarrow> False | Some j \<Rightarrow> truthy j)
      then summarize 500 (JSON_stringify rt (the (body_json b)))
      else if (case body_text b of None \<Rightarrow> False | Some t \<Rightarrow> t \<noteq> [])
      then summarize 500 (the (body_text b))
      else [])"

text \<open>
  \<^verbatim>\<open>getCachedResponse\<close>. The two parsed files are returned as they are (the casts to
  \<^verbatim>\<open>CacheMeta\<close> and \<^verbatim>\<open>CachedResponse\<close> check nothing). \<open>read_entry\<close> is the body of the
  \<^verbatim>\<open>try\<close>; the \<^verbatim>\<open>catch\<close> turns each of its errors into \<^verbatim>\<open>null\<close>. The result comes with the
  world the call leaves behind.
\<close>

definition read_entry :: "runtime \<Rightarrow> CachePaths \<Rightarrow> world \<Rightarrow> error + (json \<times> json)" where
  "read_entry rt paths w =
     (case readFileSync w (meta paths) of
        Inl e \<Rightarrow> Inl e
      | Inr metaText \<Rightarrow>
          (case JSON_parse rt metaText of
             None \<Rightarrow> Inl SyntaxError
           | Some m \<Rightarrow>
               (case readFileSync w (response paths) of
                  Inl e \<Rightarrow> Inl e
                | Inr responseText \<Rightarrow>
                    (case JSON_parse rt responseText of
                       None \<Rightarrow> Inl SyntaxError
                     | Some r \<Rightarrow> Inr (m, r)))))"

definition getCachedResponse ::
  "runtime \<Rightarrow> string \<Rightarrow> json \<Rightarrow> world \<Rightarrow> (json \<times> json) option \<times> world" where
  "getCachedResponse rt url b w =
     (let key = getCacheKey rt url b;
          paths = getCachePaths key
      in if \<not> existsSync w (meta paths) \<or> \<not> existsSync w (response paths) then (None, w)
         else (case read_entry rt paths w of
                 Inr entry \<Rightarrow> (Some entry, w)
               | Inl e \<Rightarrow> (None, w)))"

text \<open>The objects that \<^verbatim>\<open>cacheResponse\<close> serialises; a property that is \<^verbatim>\<open>undefined\<close> is left out.\<close>

definition body_to_json :: "CachedResponseBody \<Rightarrow> json" where
  "body_to_json b =
     JObj ((case body_json b of None \<Rightarrow> [] | Some j \<Rightarrow> [(''json'', j)])
           @ (case body_text b of None \<Rightarrow> [] | Some t \<Rightarrow> [(''text'', JStr t)]))"

definition response_to_json :: "CachedResponse \<Rightarrow> json" where
  "response_to_json r =
     JObj [(''status'', JNum (status r)),
           (''statusText'', JStr (statusText r)),
           (''headers'', JObj (map (\<lambda>(k, v). (k, JStr v)) (headers r))),
           (''body'', body_to_json (body r)),
           (''timestamp'', JNum (timestamp r))]"

definition meta_to_json ::
  "runtime \<Rightarrow> string \<Rightarrow> string \<Rightarrow> json \<Rightarrow> CachedResponse \<Rightarrow> string list \<times> string option \<Rightarrow> json" where
  "meta_to_json rt key url requestBody r stackInfo =
     (let model = extractModel rt requestBody;
          provider = extractProvider requestBody;
          success = (200 \<le> status r \<and> status r < 300);
          errorMessage = (if success then None else extractErrorMessage (body r))
      in JObj ([(''key'', JStr key),
                (''url'', JStr url),
                (''method'', JStr ''POST''),
                (''model'', (case model of None \<Rightarrow> JNull | Some m \<Rightarrow> JStr m))]
               @ (case provider of None \<Rightarrow> [] | Some p \<Rightarrow> [(''provider'', p)])
               @ [(''status'', JNum (status r)),
                  (''statusText'', JStr (statusText r)),
                  (''timestamp'', JNum (timestamp r)),
                  (''timestampISO'', JStr (toISOString rt (timestamp r))),
                  (''responseSummary'', JStr (getResponseSummary rt (body r))),
                  (''success'', JBool success)]
               @ (case errorMessage of None \<Rightarrow> [] | Some m \<Rightarrow> [(''errorMessage'', JStr m)])
               @ [(''stackTrace'', JArr (map JStr (fst stackInfo)))]
               @ (case snd stackInfo of None \<Rightarrow> [] | Some f \<Rightarrow> [(''callerFile'', JStr f)])))"

text \<open>
  \<^verbatim>\<open>cacheResponse\<close>. The stack information is the pair \<^verbatim>\<open>{frames, callerFile}\<close> that the caller
  passes; the default, which inspects the call stack, is not modelled.
\<close>

definition cacheResponse ::
  "runtime \<Rightarrow> string \<Rightarrow> json \<Rightarrow> CachedResponse \<Rightarrow> string list \<times> string option \<Rightarrow> world \<Rightarrow> world" where
  "cacheResponse rt url requestBody r stackInfo w =
     (let key = getCacheKey rt url requestBody;
          paths = getCachePaths key;
          w1 = (if \<not> existsSync w (folder paths) then mkdirSync (folder paths) w else w);
          w2 = writeFileSync (meta paths)
                 (JSON_stringify_pretty rt (meta_to_json rt key url requestBody r stackInfo)) w1;
          w3 = (if \<not> existsSync w2 SIDECAR_DIR then mkdirSync SIDECAR_DIR w2 else w2);
          opts = \<lparr>sidecarDir = Some SIDECAR_DIR, threshold = None\<rparr>;
          w4 = writeFile rt (request paths) requestBody opts w3
      in writeFile rt (response paths) (response_to_json r) opts w4)"

text \<open>
  The real transport: a function from the request to its outcome (a response or the error
  the promise rejects with) and the time the call takes. \<^verbatim>\<open>fetch\<close> records the call and lets
  the time pass.
\<close>

type_synonym transport = "string \<Rightarrow> RequestInit option \<Rightarrow> (error + Response) \<times> int"

definition fetch ::
  "transport \<Rightarrow> string \<Rightarrow> RequestInit option \<Rightarrow> world \<Rightarrow> (error + Response) \<times> world" where
  "fetch T input init w =
     (case T input init of
        (res, elapsed) \<Rightarrow>
          (res, w\<lparr>clock := clock w + elapsed, net_log := net_log w @ [(input, init)]\<rparr>))"

text \<open>
  The cached snapshot read as the \<^verbatim>\<open>CachedResponse\<close> that the cast promises, and the
  \<^verbatim>\<open>model\<close> of the metadata. A file of another shape is outside that contract: what the
  runtime's coercions would make of it is not modelled, and the wrapper below reports it as
  a TypeError.
\<close>

definition as_headers :: "json \<Rightarrow> (string \<times> string) list option" where
  "as_headers h =
     (case h of
        JObj kvs \<Rightarrow>
          if list_all (\<lambda>kv. case snd kv of JStr s \<Rightarrow> True | _ \<Rightarrow> False) kvs
          then Some (map (\<lambda>kv. (fst kv, case snd kv of JStr s \<Rightarrow> s | _ \<Rightarrow> [])) kvs)
          else None
      | _ \<Rightarrow> None)"

definition as_body :: "json \<Rightarrow> CachedResponseBody option" where
  "as_body b =
     (case b of
        JObj kvs \<Rightarrow>
          (case map_of kvs ''text'' of
             None \<Rightarrow> Some \<lparr>body_json = map_of kvs ''json'', body_text = None\<rparr>
           | Some (JStr t) \<Rightarrow> Some \<lparr>body_json = map_of kvs ''json'', body_text = Some t\<rparr>
           | Some other \<Rightarrow> None)
      | _ \<Rightarrow> None)"

definition as_CachedResponse :: "json \<Rightarrow> CachedResponse option" where
  "as_CachedResponse r =
     (case (get_prop r ''status'', get_prop r ''statusText'', get_prop r ''headers'', get_prop r ''body'',
            get_prop r ''timestamp'') of
        (Some (JNum st), Some (JStr stt), Some h, Some b, Some (JNum ts)) \<Rightarrow>
          (case (as_headers h, as_body b) of
             (Some hs, Some bd) \<Rightarrow>
               Some \<lparr>status = st, statusText = stt, headers = hs, body = bd, timestamp = ts\<rparr>
           | _ \<Rightarrow> None)
      | _ \<Rightarrow> None)"

definition as_model :: "json \<Rightarrow> string option option" where
  "as_model m =
     (case m of
        JObj kvs \<Rightarrow>
          (case map_of kvs ''model'' of
             None \<Rightarrow> Some None
           | Some JNull \<Rightarrow> Some None
           | Some (JStr s) \<Rightarrow> Some (Some s)
           | Some other \<Rightarrow> None)
      | _ \<Rightarrow> None)"

record CacheOptions =
  enabled :: "bool option"
  ttlMs :: "int option"

text \<open>\<^verbatim>\<open>Math.round(age / 1000)\<close>: halves round up.\<close>

definition round_seconds :: "int \<Rightarrow> int" where
  "round_seconds age = (age + 500) div 1000"

text \<open>
  The snapshot that the wrapper stores for a live response: the body as JSON when the text
  parses and as raw text otherwise, the headers copied one by one into a plain object, and
  the time of the capture.
\<close>

definition snapshot_of :: "runtime \<Rightarrow> Response \<Rightarrow> int \<Rightarrow> CachedResponse" where
  "snapshot_of rt res now =
     \<lparr>status = status res, statusText = statusText res,
      headers = fold (\<lambda>(k, v). obj_assign k v) (headers res) [],
      body = (case JSON_parse rt (bodyText res) of
                Some j \<Rightarrow> \<lparr>body_json = Some j, body_text = None\<rparr>
              | None \<Rightarrow> \<lparr>body_json = None, body_text = Some (bodyText res)\<rparr>),
      timestamp = now\<rparr>"

text \<open>The part of the wrapper after a lookup that found nothing fresh.\<close>

definition fetch_and_cache ::
  "runtime \<Rightarrow> transport \<Rightarrow> string list \<times> string option \<Rightarrow> string \<Rightarrow> RequestInit option \<Rightarrow> json
     \<Rightarrow> world \<Rightarrow> (error + Response) \<times> world" where
  "fetch_and_cache rt T stackInfo url init requestBody w =
     (let model = extractModel rt requestBody;
          provider = extractProvider requestBody;
          providerInfo = (case provider of
                            None \<Rightarrow> []
                          | Some p \<Rightarrow> if truthy p then '' via '' @ JSON_stringify rt p else []);
          w1 = console_log (''[CACHE MISS] '' @ (case model of None \<Rightarrow> url | Some m \<Rightarrow> m)
                            @ providerInfo) w
      in case fetch T url init w1 of
           (Inl e, w2) \<Rightarrow> (Inl e, w2)
         | (Inr res, w2) \<Rightarrow>
             (Inr \<lparr>status = status res, statusText = statusText res,
                   headers = headers res, bodyText = bodyText res\<rparr>,
              cacheResponse rt url requestBody (snapshot_of rt res (clock w2)) stackInfo w2))"

text \<open>
  The function that \<^verbatim>\<open>createCachedFetch(options)\<close> returns, applied to a URL string and the
  optional \<^verbatim>\<open>init\<close>; \<open>stackInfo\<close> is what \<^verbatim>\<open>getStackTrace()\<close> finds at the call.
\<close>

definition cachedFetch ::
  "runtime \<Rightarrow> CacheOptions \<Rightarrow> transport \<Rightarrow> string list \<times> string option \<Rightarrow> string
     \<Rightarrow> RequestInit option \<Rightarrow> world \<Rightarrow> (error + Response) \<times> world" where
  "cachedFetch rt options T stackInfo url init w =
     (let on = (case enabled options of None \<Rightarrow> True | Some b \<Rightarrow> b);
          ttl = (case ttlMs options of None \<Rightarrow> 60 * 60 * 1000 | Some t \<Rightarrow> t)
      in if \<not> on \<or> (case init of None \<Rightarrow> None | Some i \<Rightarrow> init_method i) \<noteq> Some ''POST''
            \<or> (case init of None \<Rightarrow> True
                | Some i \<Rightarrow> (case init_body i of None \<Rightarrow> True | Some s \<Rightarrow> s = []))
         then fetch T url init w
         else (case JSON_parse rt (the (init_body (the init))) of
                 None \<Rightarrow> fetch T url init w
               | Some requestBody \<Rightarrow>
                   (case getCachedResponse rt url requestBody w of
                      (None, w1) \<Rightarrow> fetch_and_cache rt T stackInfo url init requestBody w1
                    | (Some (m, r), w1) \<Rightarrow>
                        (case (as_model m, as_CachedResponse r) of
                           (Some model, Some cached) \<Rightarrow>
                             (let age = clock w1 - timestamp cached in
                              if age < ttl
                              then (Inr \<lparr>status = status cached, statusText = statusText cached,
                                         headers = headers cached,
                                         bodyText =
                                           (case body_json (body cached) of
                                              Some j \<Rightarrow> JSON_stringify rt j
                                            | None \<Rightarrow>
                                                (case body_text (body cached) of
                                                   Some t \<Rightarrow> t
                                                 | None \<Rightarrow> []))\<rparr>,
                                    console_log
                                      (''[CACHE HIT] ''
                                       @ (case model of None \<Rightarrow> ''unknown'' | Some s \<Rightarrow> s)
                                       @ '' (age: '' @ String_of rt (JNum (round_seconds age))
                                       @ ''s)'') w1)
                              else fetch_and_cache rt T stackInfo url init requestBody
                                     (console_log
                                        (''[CACHE EXPIRED] ''
                                         @ (case model of None \<Rightarrow> url | Some s \<Rightarrow> s)) w1))
                         | _ \<Rightarrow> (Inl (TypeError ''cached entry''), w1)))))"

section \<open>An executable runtime\<close>

text \<open>
  An instance of the runtime parameters, used to run the model on concrete inputs: a JSON
  serialiser and parser for the values of type \<^typ>\<open>json\<close> (integers only), and a digest
  that is a checksum in hexadecimal, 64 characters long as a SHA-256 digest is. The digest
  is not SHA-256 and the timestamps are not ISO dates; every theorem below is proved for an
  arbitrary runtime.
\<close>

definition dq :: char where "dq = CHR 0x22"
definition bs :: char where "bs = CHR 0x5C"

definition hex_digit :: "nat \<Rightarrow> char" where
  "hex_digit n = ''0123456789abcdef'' ! (n mod 16)"

definition show_int :: "int \<Rightarrow> string" where
  "show_int i = (if i < 0 then ''-'' @ show_nat (nat (- i)) else show_nat (nat i))"

definition escape_char :: "char \<Rightarrow> string" where
  "escape_char c =
     (if c = dq then [bs, dq]
      else if c = bs then [bs, bs]
      else if c = CHR 0x08 then [bs, CHR ''b'']
      else if c = CHR 0x09 then [bs, CHR ''t'']
      else if c = CHR 0x0A then [bs, CHR ''n'']
      else if c = CHR 0x0C then [bs, CHR ''f'']
      else if c = CHR 0x0D then [bs, CHR ''r'']
      else if (of_char c :: nat) < 32
      then [bs, CHR ''u'', CHR ''0'', CHR ''0'', hex_digit (of_char c div 16), hex_digit (of_char c)]
      else [c])"

definition quote :: "string \<Rightarrow> string" where
  "quote s = dq # concat (map escape_char s) @ [dq]"

fun intercalate :: "string \<Rightarrow> string list \<Rightarrow> string" where
  "intercalate sep [] = []"
| "intercalate sep [x] = x"
| "intercalate sep (x # y # ys) = x @ sep @ intercalate sep (y # ys)"

fun serialize :: "json \<Rightarrow> string" where
  "serialize JNull = ''null''"
| "serialize (JBool b) = (if b then ''true'' else ''false'')"
| "serialize (JNum n) = show_int n"
| "serialize (JStr s) = quote s"
| "serialize (JArr xs) = ''['' @ intercalate '','' (map serialize xs) @ '']''"
| "serialize (JObj kvs) =
     ''{'' @ intercalate '','' (map (\<lambda>kv. quote (fst kv) @ '':'' @ serialize (snd kv)) kvs) @ ''}''"

fun serialize_pretty :: "nat \<Rightarrow> json \<Rightarrow> string" where
  "serialize_pretty ind (JArr xs) =
     (if xs = [] then ''[]''
      else ''['' @ [CHR 0x0A]
           @ intercalate ('','' @ [CHR 0x0A])
               (map (\<lambda>x. replicate (ind + 2) CHR '' '' @ serialize_pretty (ind + 2) x) xs)
           @ [CHR 0x0A] @ replicate ind CHR '' '' @ '']'')"
| "serialize_pretty ind (JObj kvs) =
     (if kvs = [] then ''{}''
      else ''{'' @ [CHR 0x0A]
           @ intercalate ('','' @ [CHR 0x0A])
               (map (\<lambda>kv. replicate (ind + 2) CHR '' '' @ quote (fst kv) @ '': ''
                          @ serialize_pretty (ind + 2) (snd kv)) kvs)
           @ [CHR 0x0A] @ replicate ind CHR '' '' @ ''}'')"
| "serialize_pretty ind v = serialize v"

definition is_ws :: "char \<Rightarrow> bool" where
  "is_ws c = (c = CHR '' '' \<or> c = CHR 0x09 \<or> c = CHR 0x0A \<or> c = CHR 0x0D)"

definition is_digit :: "char \<Rightarrow> bool" where
  "is_digit c = (c \<in> set ''0123456789'')"

definition digit_val :: "char \<Rightarrow> nat" where
  "digit_val c = (of_char c - 48)"

definition hex_val :: "char \<Rightarrow> nat option" where
  "hex_val c =
     (if is_digit c then Some (of_char c - 48)
      else if c \<in> set ''abcdef'' then Some (of_char c - 87)
      else if c \<in> set ''ABCDEF'' then Some (of_char c - 55)
      else None)"

definition unescape :: "char \<Rightarrow> char option" where
  "unescape e =
     (if e = dq then Some dq else if e = bs then Some bs else if e = CHR ''/'' then Some CHR ''/''
      else if e = CHR ''b'' then Some (CHR 0x08) else if e = CHR ''t'' then Some (CHR 0x09)
      else if e = CHR ''n'' then Some (CHR 0x0A) else if e = CHR ''f'' then Some (CHR 0x0C)
      else if e = CHR ''r'' then Some (CHR 0x0D) else None)"

fun parse_chars :: "string \<Rightarrow> (string \<times> string) option" where
  "parse_chars [] = None"
| "parse_chars (c # cs) =
     (if c = dq then Some ([], cs)
      else if c = bs then
        (case cs of
           [] \<Rightarrow> None
         | e # cs1 \<Rightarrow>
             if e = CHR ''u'' then
               (case cs1 of
                  a # b # x # y # cs2 \<Rightarrow>
                    (case (hex_val a, hex_val b, hex_val x, hex_val y) of
                       (Some 0, Some 0, Some h, Some l) \<Rightarrow>
                         map_option (\<lambda>(s, r). (char_of (16 * h + l) # s, r)) (parse_chars cs2)
                     | _ \<Rightarrow> None)
                | _ \<Rightarrow> None)
             else (case unescape e of
                     None \<Rightarrow> None
                   | Some ch \<Rightarrow> map_option (\<lambda>(s, r). (ch # s, r)) (parse_chars cs1)))
      else if (of_char c :: nat) < 32 then None
      else map_option (\<lambda>(s, r). (c # s, r)) (parse_chars cs))"

definition parse_number :: "string \<Rightarrow> (json \<times> string) option" where
  "parse_number s =
     (let neg = (s \<noteq> [] \<and> hd s = CHR ''-'');
          t = (if neg then tl s else s);
          ds = takeWhile is_digit t;
          r = dropWhile is_digit t;
          n = foldl (\<lambda>a d. 10 * a + int (digit_val d)) 0 ds
      in if ds = [] \<or> (1 < length ds \<and> hd ds = CHR ''0'')
            \<or> (r \<noteq> [] \<and> hd r \<in> set ''.eE'')
         then None
         else Some (JNum (if neg then - n else n), r))"

fun parse_value :: "nat \<Rightarrow> string \<Rightarrow> (json \<times> string) option"
  and parse_elements :: "nat \<Rightarrow> string \<Rightarrow> (json list \<times> string) option"
  and parse_members :: "nat \<Rightarrow> string \<Rightarrow> ((string \<times> json) list \<times> string) option" where
  "parse_value 0 s = None"
| "parse_value (Suc n) s =
     (case dropWhile is_ws s of
        [] \<Rightarrow> None
      | c # cs \<Rightarrow>
          if c = CHR ''n'' then (if prefix ''ull'' cs then Some (JNull, drop 3 cs) else None)
          else if c = CHR ''t'' then (if prefix ''rue'' cs then Some (JBool True, drop 3 cs) else None)
          else if c = CHR ''f'' then (if prefix ''alse'' cs then Some (JBool False, drop 4 cs) else None)
          else if c = dq then map_option (\<lambda>(str, r). (JStr str, r)) (parse_chars cs)
          else if c = CHR ''['' then
            (case dropWhile is_ws cs of
               [] \<Rightarrow> None
             | d # ds \<Rightarrow>
                 if d = CHR '']'' then Some (JArr [], ds)
                 else map_option (\<lambda>(xs, r). (JArr xs, r)) (parse_elements n cs))
          else if c = CHR ''{'' then
            (case dropWhile is_ws cs of
               [] \<Rightarrow> None
             | d # ds \<Rightarrow>
                 if d = CHR ''}'' then Some (JObj [], ds)
                 else map_option (\<lambda>(kvs, r). (JObj kvs, r)) (parse_members n cs))
          else parse_number (c # cs))"
| "parse_elements 0 s = None"
| "parse_elements (Suc n) s =
     (case parse_value n s of
        None \<Rightarrow> None
      | Some (x, r) \<Rightarrow>
          (case dropWhile is_ws r of
             [] \<Rightarrow> None
           | c # r1 \<Rightarrow>
               if c = CHR '','' then map_option (\<lambda>(xs, r2). (x # xs, r2)) (parse_elements n r1)
               else if c = CHR '']'' then Some ([x], r1)
               else None))"
| "parse_members 0 s = None"
| "parse_members (Suc n) s =
     (case dropWhile is_ws s of
        [] \<Rightarrow> None
      | q # s1 \<Rightarrow>
          if q \<noteq> dq then None
          else (case parse_chars s1 of
                  None \<Rightarrow> None
                | Some (k, s2) \<Rightarrow>
                    (case dropWhile is_ws s2 of
                       [] \<Rightarrow> None
                     | col # s3 \<Rightarrow>
                         if col \<noteq> CHR '':'' then None
                         else (case parse_value n s3 of
                                 None \<Rightarrow> None
                               | Some (v, r) \<Rightarrow>
                                   (case dropWhile is_ws r of
                                      [] \<Rightarrow> None
                                    | c # r1 \<Rightarrow>
                                        if c = CHR '','' then
                                          map_option (\<lambda>(kvs, r2). ((k, v) # kvs, r2))
                                            (parse_members n r1)
                                        else if c = CHR ''}'' then Some ([(k, v)], r1)
                                        else None)))))"

definition parse_text :: "string \<Rightarrow> json option" where
  "parse_text s =
     (case parse_value (Suc (length s)) s of
        None \<Rightarrow> None
      | Some (v, r) \<Rightarrow> if dropWhile is_ws r = [] then Some v else None)"

definition checksum :: "string \<Rightarrow> int" where
  "checksum s = (int (length s) * 65599 + sum_list (map of_char s)) mod 4294967296"

definition hex8 :: "int \<Rightarrow> string" where
  "hex8 n = map (\<lambda>i. hex_digit (nat ((n div 16 ^ i) mod 16))) (rev [0..<8])"

definition digest_hex :: "string \<Rightarrow> string" where
  "digest_hex s = concat (replicate 8 (hex8 (checksum s)))"

fun string_of :: "json \<Rightarrow> string" where
  "string_of (JNum n) = show_int n"
| "string_of (JArr xs) =
     intercalate '','' (map (\<lambda>x. case x of JNull \<Rightarrow> [] | JStr s \<Rightarrow> s
                                | JBool b \<Rightarrow> (if b then ''true'' else ''false'') | _ \<Rightarrow> string_of x) xs)"
| "string_of v = ''[object Object]''"

definition demo_runtime :: runtime where
  "demo_runtime = \<lparr>sha256_hex = digest_hex, JSON_stringify = serialize,
     JSON_stringify_pretty = serialize_pretty 0, JSON_parse = parse_text,
     String_of = string_of, toISOString = (\<lambda>t. ''t='' @ show_int t)\<rparr>"

section \<open>The codec leaf by leaf\<close>

text \<open>The string leaves of a value in the order of the traversal, and a map over them.\<close>

fun strings_of :: "json \<Rightarrow> string list" where
  "strings_of (JStr s) = [s]"
| "strings_of (JArr xs) = concat (map strings_of xs)"
| "strings_of (JObj kvs) = concat (map (\<lambda>kv. strings_of (snd kv)) kvs)"
| "strings_of v = []"

fun map_strs :: "(string \<Rightarrow> string) \<Rightarrow> json \<Rightarrow> json" where
  "map_strs f (JStr s) = JStr (f s)"
| "map_strs f (JArr xs) = JArr (map (map_strs f) xs)"
| "map_strs f (JObj kvs) = JObj (map (\<lambda>kv. (fst kv, map_strs f (snd kv))) kvs)"
| "map_strs f v = v"

text \<open>
  What the replacer does with one string over the threshold: the file name and the content
  it puts into the map (nothing when the hash it reads back from the reference is empty).
\<close>

definition sidecar_entry :: "runtime \<Rightarrow> string \<Rightarrow> (string \<times> string) option" where
  "sidecar_entry rt s =
     (case processLargeString rt s of
        (ref, content) \<Rightarrow>
          (case extractSidecarHash ref of
             None \<Rightarrow> None
           | Some hash \<Rightarrow> if hash \<noteq> [] then Some (hash @ ''.sidecar'', content) else None))"

definition leaf_store :: "runtime \<Rightarrow> string \<Rightarrow> (string \<times> string) list \<Rightarrow> (string \<times> string) list" where
  "leaf_store rt s sc =
     (case sidecar_entry rt s of None \<Rightarrow> sc | Some (n, c) \<Rightarrow> AList.update n c sc)"

definition leaf_ref :: "runtime \<Rightarrow> int \<Rightarrow> string \<Rightarrow> string" where
  "leaf_ref rt thr s = (if thr < int (length s) then fst (processLargeString rt s) else s)"

definition long_strings :: "int \<Rightarrow> json \<Rightarrow> string list" where
  "long_strings thr v = filter (\<lambda>s. thr < int (length s)) (strings_of v)"

text \<open>The directory that \<^verbatim>\<open>stringify\<close> and \<^verbatim>\<open>parse\<close> use, and the world with it made sure of.\<close>

definition sidecar_dir_of :: "string \<Rightarrow> SidecarOptions \<Rightarrow> string" where
  "sidecar_dir_of mainFilePath opts =
     (case sidecarDir opts of None \<Rightarrow> dirname mainFilePath | Some d \<Rightarrow> d)"

definition ensure_dir :: "string \<Rightarrow> world \<Rightarrow> world" where
  "ensure_dir dir w = (if \<not> existsSync w dir then mkdirSync dir w else w)"

text \<open>
  What the reviver makes of one string against the files \<open>m\<close>, when the read does not fail,
  and the warning it logs.
\<close>

definition sidecar_path :: "string \<Rightarrow> string \<Rightarrow> string" where
  "sidecar_path dir hash = join dir (hash @ ''.sidecar'')"

definition resolve_leaf :: "(string \<Rightarrow> node option) \<Rightarrow> string \<Rightarrow> string \<Rightarrow> string" where
  "resolve_leaf m dir s =
     (case extractSidecarHash s of
        None \<Rightarrow> s
      | Some hash \<Rightarrow>
          if hash = [] then s
          else (case m (sidecar_path dir hash) of
                  Some (File content) \<Rightarrow>
                    (case indexOf SIDECAR_MARKER s of
                       Some markerIdx \<Rightarrow> if 0 < markerIdx then take markerIdx s @ content else content
                     | None \<Rightarrow> content)
                | _ \<Rightarrow> s))"

definition leaf_warning :: "(string \<Rightarrow> node option) \<Rightarrow> string \<Rightarrow> string \<Rightarrow> string list" where
  "leaf_warning m dir s =
     (case extractSidecarHash s of
        None \<Rightarrow> []
      | Some hash \<Rightarrow>
          if hash \<noteq> [] \<and> m (sidecar_path dir hash) = None
          then [''Sidecar file not found: '' @ sidecar_path dir hash]
          else [])"

definition not_a_directory :: "(string \<Rightarrow> node option) \<Rightarrow> string \<Rightarrow> string \<Rightarrow> bool" where
  "not_a_directory m dir s =
     (case extractSidecarHash s of
        None \<Rightarrow> True
      | Some hash \<Rightarrow> m (sidecar_path dir hash) \<noteq> Some Dir)"

text \<open>
  A string whose data-URL prefix, if it has one, does not contain the marker; and a list of
  strings no two of which are stored under one file name with different contents (no
  collision of the truncated hashes).
\<close>

definition marker_free_prefix :: "string \<Rightarrow> bool" where
  "marker_free_prefix s =
     (case match_DATA_URL_REGEX s of None \<Rightarrow> True | Some (pre, payload) \<Rightarrow> \<not> hasSidecarRef pre)"


section \<open>Worlds, transports and responses for the examples\<close>

text \<open>The world before anything has happened.\<close>

definition empty_world :: world where
  "empty_world = \<lparr>fs = (\<lambda>p. None), clock = 0, console = [], net_log = []\<rparr>"

text \<open>A world that holds the given regular files and nothing else.\<close>

definition world_of_files :: "(string \<times> string) list \<Rightarrow> world" where
  "world_of_files files =
     \<lparr>fs = map_of (map (\<lambda>(p, c). (p, File c)) files), clock = 0, console = [], net_log = []\<rparr>"

text \<open>A transport that answers every request with the same response after five milliseconds.\<close>

definition constant_transport :: "Response \<Rightarrow> transport" where
  "constant_transport res = (\<lambda>input init. (Inr res, 5))"

text \<open>A live response with a raw text body of 1001 characters.\<close>

definition long_text_response :: Response where
  "long_text_response =
     \<lparr>status = 200, statusText = ''OK'', headers = [(''content-type'', ''text/plain'')],
      bodyText = CHR ''a'' # replicate 1000 CHR ''a''\<rparr>"

section \<open>Facts about the model\<close>

subsection \<open>The first occurrence of a pattern\<close>

lemma indexOf_SomeD:
  "indexOf pat s = Some i \<Longrightarrow> prefix pat (drop i s) \<and> i \<le> length s"
proof (induction s arbitrary: i)
  case Nil
  then show ?case by (simp split: if_splits)
next
  case (Cons c cs)
  show ?case
  proof (cases "prefix pat (c # cs)")
    case True
    with Cons.prems show ?thesis by simp
  next
    case False
    with Cons.prems obtain j where j: "indexOf pat cs = Some j" "i = Suc j"
      by auto
    with Cons.IH[of j] show ?thesis by simp
  qed
qed

lemma indexOf_first:
  "indexOf pat s = Some i \<Longrightarrow> j < i \<Longrightarrow> \<not> prefix pat (drop j s)"
proof (induction s arbitrary: i j)
  case Nil
  then show ?case by (simp split: if_splits)
next
  case (Cons c cs)
  show ?case
  proof (cases "prefix pat (c # cs)")
    case True
    with Cons.prems show ?thesis by simp
  next
    case False
    with Cons.prems obtain k where k: "indexOf pat cs = Some k" "i = Suc k"
      by auto
    show ?thesis
    proof (cases j)
      case 0
      with False show ?thesis by simp
    next
      case (Suc j')
      with Cons.IH[OF k(1), of j'] Cons.prems k show ?thesis by simp
    qed
  qed
qed

lemma indexOf_NoneD:
  "indexOf pat s = None \<Longrightarrow> j \<le> length s \<Longrightarrow> \<not> prefix pat (drop j s)"
proof (induction s arbitrary: j)
  case Nil
  then show ?case by (simp split: if_splits)
next
  case (Cons c cs)
  then show ?case by (cases j) (auto split: if_splits)
qed

lemma indexOf_eqI:
  "prefix pat (drop i s) \<Longrightarrow> i \<le> length s \<Longrightarrow> (\<forall>j<i. \<not> prefix pat (drop j s))
     \<Longrightarrow> indexOf pat s = Some i"
proof (cases "indexOf pat s")
  case None
  assume "prefix pat (drop i s)" "i \<le> length s"
  with indexOf_NoneD[OF None, of i] show ?thesis by simp
next
  case (Some k)
  assume a: "prefix pat (drop i s)" "i \<le> length s" "\<forall>j<i. \<not> prefix pat (drop j s)"
  from indexOf_SomeD[OF Some] have k: "prefix pat (drop k s)" "k \<le> length s" by simp_all
  have "\<not> k < i" using a(3) k(1) by blast
  moreover have "\<not> i < k" using indexOf_first[OF Some, of i] a(1) by blast
  ultimately show ?thesis using Some by simp
qed

lemma indexOf_prefix [simp]: "indexOf pat (pat @ s) = Some 0"
  by (rule indexOf_eqI) simp_all



lemma hasSidecarRef_iff: "hasSidecarRef s \<longleftrightarrow> extractSidecarHash s \<noteq> None"
  by (simp add: hasSidecarRef_def extractSidecarHash_def split: option.splits)

subsection \<open>Data URLs and references\<close>

lemma match_DATA_URL_REGEX_SomeD:
  assumes "match_DATA_URL_REGEX v = Some (pre, payload)"
  shows "v = pre @ payload" and "payload \<noteq> []" and "pre \<noteq> []" and "last pre = CHR '',''"
    and "\<not> list_ex line_terminator payload"
proof -
  define rest where "rest = drop 5 v"
  define media where "media = takeWhile (\<lambda>c. c \<noteq> CHR '';'') rest"
  define after where "after = dropWhile (\<lambda>c. c \<noteq> CHR '';'') rest"
  from assms have p: "prefix ''data:'' v"
    by (auto simp: match_DATA_URL_REGEX_def split: if_splits)
  from assms p have c: "prefix '';base64,'' after" "payload = drop 8 after"
      "pre = ''data:'' @ media @ '';base64,''" "payload \<noteq> []" "\<not> list_ex line_terminator payload"
    by (auto simp: match_DATA_URL_REGEX_def Let_def rest_def media_def after_def split: if_splits)
  from p have v: "v = ''data:'' @ rest"
    by (auto simp: rest_def prefix_def)
  have r: "rest = media @ after"
    by (simp add: media_def after_def)
  from c(1) have a: "after = '';base64,'' @ drop 8 after"
    by (auto simp: prefix_def)
  show "v = pre @ payload" using v r a c(2,3) by simp
  show "payload \<noteq> []" by fact
  show "pre \<noteq> []" using c(3) by simp
  show "last pre = CHR '',''" using c(3) by simp
  show "\<not> list_ex line_terminator payload" by fact
qed


lemma indexOf_None_appendD: "indexOf pat (a @ b) = None \<Longrightarrow> indexOf pat a = None"
proof (rule ccontr)
  assume n: "indexOf pat (a @ b) = None" and "indexOf pat a \<noteq> None"
  then obtain i where i: "indexOf pat a = Some i" by auto
  from indexOf_SomeD[OF i] have "prefix pat (drop i a)" "i \<le> length a" by simp_all
  then have "prefix pat (drop i (a @ b))" by (simp add: prefix_prefix)
  moreover have "i \<le> length (a @ b)" using \<open>i \<le> length a\<close> by simp
  ultimately show False using indexOf_NoneD[OF n, of i] by simp
qed


lemma length_marker [simp]: "length SIDECAR_MARKER = 12"
  by (simp add: SIDECAR_MARKER_def)

text \<open>The reference of a plain string.\<close>

lemma processLargeString_plain:
  "match_DATA_URL_REGEX s = None \<Longrightarrow>
     processLargeString rt s = (SIDECAR_MARKER @ hashValue rt s, s)"
  by (simp add: processLargeString_def makeSidecarRef_def)




lemma marker_free_prefixI: "\<not> hasSidecarRef s \<Longrightarrow> marker_free_prefix s"
proof (cases "match_DATA_URL_REGEX s")
  case None
  then show ?thesis by (simp add: marker_free_prefix_def)
next
  case (Some a)
  assume n: "\<not> hasSidecarRef s"
  obtain pre pl where a: "a = (pre, pl)" by (cases a)
  from match_DATA_URL_REGEX_SomeD(1)[OF Some[unfolded a]] n
  have "indexOf SIDECAR_MARKER (pre @ pl) = None" by (simp add: hasSidecarRef_def)
  then have "indexOf SIDECAR_MARKER pre = None" by (rule indexOf_None_appendD)
  then show ?thesis using Some a by (simp add: marker_free_prefix_def hasSidecarRef_def)
qed



subsection \<open>The traversal of the encoder\<close>

lemma replacer_JStr:
  "replacer rt thr (JStr s) sc =
     (JStr (leaf_ref rt thr s), if thr < int (length s) then leaf_store rt s sc else sc)"
  by (cases "processLargeString rt s")
     (simp add: replacer_def leaf_ref_def leaf_store_def sidecar_entry_def split: option.splits)

lemma walk_char:
  "stringify_walk rt thr v sc =
     (map_strs (leaf_ref rt thr) v, fold (leaf_store rt) (long_strings thr v) sc)"
  "stringify_walk_list rt thr xs sc =
     (map (map_strs (leaf_ref rt thr)) xs,
      fold (leaf_store rt) (filter (\<lambda>s. thr < int (length s)) (concat (map strings_of xs))) sc)"
  "stringify_walk_fields rt thr kvs sc =
     (map (\<lambda>kv. (fst kv, map_strs (leaf_ref rt thr) (snd kv))) kvs,
      fold (leaf_store rt)
        (filter (\<lambda>s. thr < int (length s)) (concat (map (\<lambda>kv. strings_of (snd kv)) kvs))) sc)"
  unfolding long_strings_def
  by (induction rt thr v sc and rt thr xs sc and rt thr kvs sc
      rule: stringify_walk_stringify_walk_list_stringify_walk_fields.induct)
     (simp_all add: replacer_JStr, simp_all add: replacer_def)

lemma stringify_char:
  "stringify rt v p opts w =
     (JSON_stringify_pretty rt
        (map_strs (leaf_ref rt (case threshold opts of None \<Rightarrow> DEFAULT_THRESHOLD | Some t \<Rightarrow> t)) v),
      write_sidecars (sidecar_dir_of p opts)
        (fold (leaf_store rt)
           (long_strings (case threshold opts of None \<Rightarrow> DEFAULT_THRESHOLD | Some t \<Rightarrow> t) v) [])
        (ensure_dir (sidecar_dir_of p opts) w))"
  by (simp add: stringify_def walk_char sidecar_dir_of_def ensure_dir_def Let_def)

lemma strings_of_map_strs: "strings_of (map_strs f v) = map f (strings_of v)"
  by (induction f v rule: map_strs.induct) (simp_all add: map_concat comp_def cong: map_cong)

lemma hasUnresolvedRefs_iff:
  "hasUnresolvedRefs v \<longleftrightarrow> (\<exists>s\<in>set (strings_of v). hasSidecarRef s)"
  by (induction v rule: hasUnresolvedRefs.induct) (auto simp: list_ex_iff)

lemma map_strs_cong:
  "(\<And>s. s \<in> set (strings_of v) \<Longrightarrow> f s = g s) \<Longrightarrow> map_strs f v = map_strs g v"
  by (induction f v rule: map_strs.induct) (auto)



subsection \<open>Writing files and making directories\<close>

lemma join_inject [simp]: "join dir a = join dir b \<longleftrightarrow> a = b"
  by (simp add: join_def)

lemma sidecar_path_inject [simp]: "sidecar_path dir a = sidecar_path dir b \<longleftrightarrow> a = b"
  by (simp add: sidecar_path_def)

lemma writeFileSync_simps [simp]:
  "fs (writeFileSync p c w) = (fs w)(p \<mapsto> File c)"
  "clock (writeFileSync p c w) = clock w"
  "console (writeFileSync p c w) = console w"
  "net_log (writeFileSync p c w) = net_log w"
  by (simp_all add: writeFileSync_def)

lemma write_sidecars_frame [simp]:
  "clock (write_sidecars dir sc w) = clock w"
  "console (write_sidecars dir sc w) = console w"
  "net_log (write_sidecars dir sc w) = net_log w"
  by (induction dir sc w rule: write_sidecars.induct) simp_all

lemma write_sidecars_other:
  "p \<notin> (\<lambda>e. join dir (fst e)) ` set sc \<Longrightarrow> fs (write_sidecars dir sc w) p = fs w p"
  by (induction dir sc w rule: write_sidecars.induct) auto


lemma write_sidecars_exists:
  "fs w p \<noteq> None \<Longrightarrow> fs (write_sidecars dir sc w) p \<noteq> None"
  by (induction dir sc w rule: write_sidecars.induct) auto

lemma write_sidecars_Nil_eq [simp]: "write_sidecars dir [] w = w"
  by simp

lemma mkdir_fold_other:
  "fold (\<lambda>q m. if m q = None then m(q \<mapsto> Dir) else m) qs m p
     = (if m p = None \<and> p \<in> set qs then Some Dir else m p)"
proof (induction qs arbitrary: m)
  case Nil
  then show ?case by simp
next
  case (Cons q qs)
  define m' where "m' = (if m q = None then m(q \<mapsto> Dir) else m)"
  have "fold (\<lambda>q m. if m q = None then m(q \<mapsto> Dir) else m) (q # qs) m p
          = (if m' p = None \<and> p \<in> set qs then Some Dir else m' p)"
    by (simp add: Cons.IH m'_def)
  also have "\<dots> = (if m p = None \<and> p \<in> set (q # qs) then Some Dir else m p)"
    by (cases "m q") (auto simp: m'_def)
  finally show ?case .
qed

lemma mkdirSync_simps [simp]:
  "fs (mkdirSync d w) p = (if fs w p = None \<and> p \<in> set (ancestors d) then Some Dir else fs w p)"
  "clock (mkdirSync d w) = clock w"
  "console (mkdirSync d w) = console w"
  "net_log (mkdirSync d w) = net_log w"
  by (simp_all add: mkdirSync_def mkdir_fold_other)

lemma ensure_dir_simps [simp]:
  "clock (ensure_dir d w) = clock w"
  "console (ensure_dir d w) = console w"
  "net_log (ensure_dir d w) = net_log w"
  by (simp_all add: ensure_dir_def)

lemma ensure_dir_fs:
  "fs (ensure_dir d w) p
     = (if fs w d = None \<and> fs w p = None \<and> p \<in> set (ancestors d) then Some Dir else fs w p)"
  by (simp add: ensure_dir_def existsSync_def)

lemma ensure_dir_keeps: "fs w p = Some x \<Longrightarrow> fs (ensure_dir d w) p = Some x"
  by (simp add: ensure_dir_fs)

lemma console_log_simps [simp]:
  "fs (console_log l w) = fs w"
  "clock (console_log l w) = clock w"
  "console (console_log l w) = console w @ [l]"
  "net_log (console_log l w) = net_log w"
  by (simp_all add: console_log_def)

subsection \<open>The map of sidecars\<close>




lemma dom_fold_leaf_store:
  "fst ` set (fold (leaf_store rt) ss sc)
     = fst ` set sc \<union> {n. \<exists>s\<in>set ss. \<exists>c. sidecar_entry rt s = Some (n, c)}"
proof (induction ss arbitrary: sc)
  case Nil
  then show ?case by simp
next
  case (Cons s ss)
  have "fst ` set (leaf_store rt s sc)
          = fst ` set sc \<union> {n. \<exists>c. sidecar_entry rt s = Some (n, c)}"
    by (auto simp: leaf_store_def dom_update split: option.splits)
  then show ?case using Cons.IH[of "leaf_store rt s sc"] by auto
qed




subsection \<open>The traversal of the decoder\<close>

lemma world_console_id [simp]: "w\<lparr>console := console w\<rparr> = w"
  by simp

lemma restoreSidecarRef_char:
  "not_a_directory (fs w) dir s \<Longrightarrow>
     restoreSidecarRef s dir w
       = (Inr (resolve_leaf (fs w) dir s),
          w\<lparr>console := console w @ leaf_warning (fs w) dir s\<rparr>)"
  by (auto simp: restoreSidecarRef_def resolve_leaf_def leaf_warning_def not_a_directory_def
        sidecar_path_def existsSync_def readFileSync_def console_log_def Let_def
        extractSidecarHash_def
      split: option.splits node.splits)

lemma resolve_leaf_no_ref: "\<not> hasSidecarRef s \<Longrightarrow> resolve_leaf m dir s = s"
  by (simp add: resolve_leaf_def hasSidecarRef_iff)

lemma leaf_warning_no_ref: "\<not> hasSidecarRef s \<Longrightarrow> leaf_warning m dir s = []"
  by (simp add: leaf_warning_def hasSidecarRef_iff)

lemma reviver_JStr:
  "not_a_directory (fs w) dir s \<Longrightarrow>
     reviver dir (JStr s) w
       = (Inr (JStr (resolve_leaf (fs w) dir s)),
          w\<lparr>console := console w @ leaf_warning (fs w) dir s\<rparr>)"
  by (simp add: reviver_def restoreSidecarRef_char resolve_leaf_no_ref leaf_warning_no_ref)

lemma parse_walk_char:
  "(\<forall>s\<in>set (strings_of v). not_a_directory (fs w) dir s) \<Longrightarrow>
     parse_walk dir v w
       = (Inr (map_strs (resolve_leaf (fs w) dir) v),
          w\<lparr>console := console w @ concat (map (leaf_warning (fs w) dir) (strings_of v))\<rparr>)"
  "(\<forall>s\<in>set (concat (map strings_of xs)). not_a_directory (fs w) dir s) \<Longrightarrow>
     parse_walk_list dir xs w
       = (Inr (map (map_strs (resolve_leaf (fs w) dir)) xs),
          w\<lparr>console := console w
               @ concat (map (leaf_warning (fs w) dir) (concat (map strings_of xs)))\<rparr>)"
  "(\<forall>s\<in>set (concat (map (\<lambda>kv. strings_of (snd kv)) kvs)). not_a_directory (fs w) dir s) \<Longrightarrow>
     parse_walk_fields dir kvs w
       = (Inr (map (\<lambda>kv. (fst kv, map_strs (resolve_leaf (fs w) dir) (snd kv))) kvs),
          w\<lparr>console := console w
               @ concat (map (leaf_warning (fs w) dir)
                           (concat (map (\<lambda>kv. strings_of (snd kv)) kvs)))\<rparr>)"
proof (induction dir v w and dir xs w and dir kvs w
       rule: parse_walk_parse_walk_list_parse_walk_fields.induct)
  case (1 dir xs w)
  then show ?case by (simp add: reviver_def)
next
  case (2 dir kvs w)
  then show ?case by (simp add: reviver_def)
next
  case (3 dir w)
  then show ?case by (simp add: reviver_def)
next
  case (4 dir b w)
  then show ?case by (simp add: reviver_def)
next
  case (5 dir n w)
  then show ?case by (simp add: reviver_def)
next
  case (6 dir s w)
  then show ?case by (simp add: reviver_JStr)
next
  case (7 dir w)
  then show ?case by simp
next
  case (8 dir x xs w)
  then show ?case by simp
next
  case (9 dir w)
  then show ?case by simp
next
  case (10 dir k v kvs w)
  then show ?case by simp
qed

subsection \<open>The executable runtime\<close>

lemma length_digest_hex [simp]: "length (digest_hex s) = 64"
  by (simp add: digest_hex_def hex8_def length_concat sum_list_replicate)

lemma digest_hex_nonempty [simp]: "digest_hex s \<noteq> []"
  using length_digest_hex[of s] by (metis list.size(3) zero_neq_numeral)

lemma demo_runtime_simps [simp]:
  "sha256_hex demo_runtime = digest_hex"
  "JSON_stringify demo_runtime = serialize"
  "JSON_stringify_pretty demo_runtime = serialize_pretty 0"
  "JSON_parse demo_runtime = parse_text"
  by (simp_all add: demo_runtime_def)

section \<open>The claims about the sidecar codec\<close>



lemma parse_char:
  assumes "JSON_parse rt text = Some v"
    and "\<forall>x\<in>set (strings_of v). not_a_directory (fs w) (sidecar_dir_of p opts) x"
  shows "parse rt text p opts w
           = (Inr (map_strs (resolve_leaf (fs w) (sidecar_dir_of p opts)) v),
              w\<lparr>console := console w
                   @ concat (map (leaf_warning (fs w) (sidecar_dir_of p opts)) (strings_of v))\<rparr>)"
  using assms by (simp add: parse_def parse_walk_char sidecar_dir_of_def[symmetric] Let_def)

text \<open>
  Claim C6. A text that parses and holds a reference whose sidecar file is missing is
  decoded without an exception: the result is the parsed value with every reference
  resolved that can be, the missing one is left as the string it was, a warning naming the
  missing file is on the console, no file is touched, and \<^verbatim>\<open>hasUnresolvedRefs\<close> is true of
  the result. (A reference that names a directory makes the read throw; the sidecar
  directory is taken to hold no directory under a sidecar's name.)
\<close>

theorem missing_sidecar_left_in_place:
  assumes "JSON_parse rt text = Some v"
    and "sidecarDir opts = Some dir"
    and "s \<in> set (strings_of v)"
    and "extractSidecarHash s = Some h" and "h \<noteq> []"
    and "fs w (join dir (h @ ''.sidecar'')) = None"
    and "\<forall>x\<in>set (strings_of v). not_a_directory (fs w) dir x"
  shows "\<exists>w'. parse rt text p opts w = (Inr (map_strs (resolve_leaf (fs w) dir) v), w')
           \<and> fs w' = fs w
           \<and> (''Sidecar file not found: '' @ join dir (h @ ''.sidecar'')) \<in> set (console w')
           \<and> resolve_leaf (fs w) dir s = s
           \<and> hasUnresolvedRefs (map_strs (resolve_leaf (fs w) dir) v)"
proof -
  have d: "sidecar_dir_of p opts = dir"
    using assms(2) by (simp add: sidecar_dir_of_def)
  define w' where
    "w' = w\<lparr>console := console w @ concat (map (leaf_warning (fs w) dir) (strings_of v))\<rparr>"
  have p: "parse rt text p opts w = (Inr (map_strs (resolve_leaf (fs w) dir) v), w')"
    using parse_char[OF assms(1), of w p opts] assms(7) by (simp add: d w'_def)
  have r: "resolve_leaf (fs w) dir s = s"
    using assms(4,5,6) by (simp add: resolve_leaf_def sidecar_path_def)
  have "leaf_warning (fs w) dir s = [''Sidecar file not found: '' @ join dir (h @ ''.sidecar'')]"
    using assms(4,5,6) by (simp add: leaf_warning_def sidecar_path_def)
  with assms(3) have c: "(''Sidecar file not found: '' @ join dir (h @ ''.sidecar'')) \<in> set (console w')"
    by (force simp: w'_def)
  have "hasSidecarRef s" using assms(4) by (simp add: hasSidecarRef_iff)
  with assms(3) r have u: "hasUnresolvedRefs (map_strs (resolve_leaf (fs w) dir) v)"
    by (force simp: hasUnresolvedRefs_iff strings_of_map_strs)
  have "fs w' = fs w" by (simp add: w'_def)
  with p c r u show ?thesis by blast
qed

theorem missing_sidecar_left_in_place_witness:
  "\<exists>w'. parse demo_runtime
          (JSON_stringify demo_runtime
             (JObj [(''file'', JStr ''__SIDECAR__:0123456789ab''), (''note'', JStr ''ok'')]))
          ''request.json'' \<lparr>sidecarDir = Some ''sidecars'', threshold = None\<rparr> empty_world
        = (Inr (map_strs (resolve_leaf (fs empty_world) ''sidecars'')
                  (JObj [(''file'', JStr ''__SIDECAR__:0123456789ab''), (''note'', JStr ''ok'')])), w')
      \<and> fs w' = fs empty_world
      \<and> (''Sidecar file not found: '' @ join ''sidecars'' (''0123456789ab'' @ ''.sidecar''))
          \<in> set (console w')
      \<and> resolve_leaf (fs empty_world) ''sidecars'' ''__SIDECAR__:0123456789ab''
          = ''__SIDECAR__:0123456789ab''
      \<and> hasUnresolvedRefs
          (map_strs (resolve_leaf (fs empty_world) ''sidecars'')
             (JObj [(''file'', JStr ''__SIDECAR__:0123456789ab''), (''note'', JStr ''ok'')]))"
proof (rule missing_sidecar_left_in_place)
  show "JSON_parse demo_runtime
          (JSON_stringify demo_runtime
             (JObj [(''file'', JStr ''__SIDECAR__:0123456789ab''), (''note'', JStr ''ok'')]))
        = Some (JObj [(''file'', JStr ''__SIDECAR__:0123456789ab''), (''note'', JStr ''ok'')])"
    unfolding demo_runtime_simps by code_simp
  show "sidecarDir \<lparr>sidecarDir = Some ''sidecars'', threshold = None\<rparr> = Some ''sidecars''"
    by simp
  show "''__SIDECAR__:0123456789ab''
          \<in> set (strings_of (JObj [(''file'', JStr ''__SIDECAR__:0123456789ab''), (''note'', JStr ''ok'')]))"
    by simp
  show "extractSidecarHash ''__SIDECAR__:0123456789ab'' = Some ''0123456789ab''"
    by code_simp
  show "''0123456789ab'' \<noteq> []" by simp
  show "fs empty_world (join ''sidecars'' (''0123456789ab'' @ ''.sidecar'')) = None"
    by (simp add: empty_world_def)
  show "\<forall>x\<in>set (strings_of (JObj [(''file'', JStr ''__SIDECAR__:0123456789ab''), (''note'', JStr ''ok'')])).
          not_a_directory (fs empty_world) ''sidecars'' x"
    by (simp add: not_a_directory_def empty_world_def split: option.splits)
qed







lemma world_console_append_Nil [simp]: "w\<lparr>console := console w @ []\<rparr> = w"
  by simp






lemma write_sidecars_keeps: "fs w q \<noteq> None \<Longrightarrow> fs (write_sidecars dir sc w) q \<noteq> None"
  by (rule write_sidecars_exists)





section \<open>The claims about the cache\<close>

lemma getCachedResponse_world: "snd (getCachedResponse rt url b w) = w"
  by (simp add: getCachedResponse_def Let_def split: sum.splits)

lemma writeFile_file: "fs (writeFile rt p v opts w) p = Some (File (fst (stringify rt v p opts w)))"
  by (simp add: writeFile_def split: prod.splits)

text \<open>
  Claim C10. A lookup leaves the world as it found it: no file or directory is created,
  changed or removed, whether the entry is there, missing or unreadable. The store
  operation does write: after it the response file of the entry exists.
\<close>

theorem lookup_is_read_only:
  "snd (getCachedResponse rt url b w) = w
   \<and> existsSync (cacheResponse rt url b r stackInfo w)
        (response (getCachePaths (getCacheKey rt url b)))"
  by (simp add: getCachedResponse_world cacheResponse_def Let_def existsSync_def writeFile_file)

theorem lookup_is_read_only_witness:
  "snd (getCachedResponse demo_runtime ''https://example/api'' (JObj []) empty_world) = empty_world
   \<and> \<not> existsSync empty_world
          (response (getCachePaths (getCacheKey demo_runtime ''https://example/api'' (JObj []))))
   \<and> existsSync
        (cacheResponse demo_runtime ''https://example/api'' (JObj [])
           \<lparr>status = 200, statusText = ''OK'', headers = [],
            body = \<lparr>body_json = Some JNull, body_text = None\<rparr>, timestamp = 0\<rparr> ([], None)
           empty_world)
        (response (getCachePaths (getCacheKey demo_runtime ''https://example/api'' (JObj []))))"
  using lookup_is_read_only [of demo_runtime "''https://example/api''" "JObj []" empty_world
      "\<lparr>status = 200, statusText = ''OK'', headers = [],
        body = \<lparr>body_json = Some JNull, body_text = None\<rparr>, timestamp = 0\<rparr>" "([], None)"]
  by (simp add: existsSync_def empty_world_def)

text \<open>
  Claim C7. A lookup has no error result. It yields nothing when the metadata file or the
  response file is missing, and when either is there but is not JSON; it yields the pair of
  the two parsed files exactly when both are regular files that parse.
\<close>

theorem lookup_absent_unless_both_parse:
  "(fs w (meta (getCachePaths (getCacheKey rt url b))) = None
      \<or> fs w (response (getCachePaths (getCacheKey rt url b))) = None
    \<longrightarrow> fst (getCachedResponse rt url b w) = None)
   \<and> ((\<exists>t. fs w (meta (getCachePaths (getCacheKey rt url b))) = Some (File t)
             \<and> JSON_parse rt t = None)
      \<or> (\<exists>t. fs w (response (getCachePaths (getCacheKey rt url b))) = Some (File t)
             \<and> JSON_parse rt t = None)
    \<longrightarrow> fst (getCachedResponse rt url b w) = None)
   \<and> (fst (getCachedResponse rt url b w) = Some (m, r)
    \<longleftrightarrow> (\<exists>mt rp. fs w (meta (getCachePaths (getCacheKey rt url b))) = Some (File mt)
             \<and> fs w (response (getCachePaths (getCacheKey rt url b))) = Some (File rp)
             \<and> JSON_parse rt mt = Some m \<and> JSON_parse rt rp = Some r))"
  by (auto simp: getCachedResponse_def read_entry_def Let_def existsSync_def readFileSync_def
      split: sum.splits option.splits node.splits)

lemma parse_text_examples:
  "parse_text ''{}'' = Some (JObj [])"
  "parse_text ''[1]'' = Some (JArr [JNum 1])"
  "parse_text ''not json'' = None"
  by code_simp+

lemma cache_paths_distinct [simp]:
  "meta (getCachePaths k) \<noteq> response (getCachePaths k)"
  "response (getCachePaths k) \<noteq> meta (getCachePaths k)"
  "meta (getCachePaths k) \<noteq> request (getCachePaths k)"
  "request (getCachePaths k) \<noteq> response (getCachePaths k)"
  "response (getCachePaths k) \<noteq> request (getCachePaths k)"
  "request (getCachePaths k) \<noteq> meta (getCachePaths k)"
  by (simp_all add: getCachePaths_def Let_def join_def)

theorem lookup_absent_unless_both_parse_witness:
  "fs empty_world (meta (getCachePaths (getCacheKey demo_runtime ''u'' JNull))) = None
   \<and> fst (getCachedResponse demo_runtime ''u'' JNull empty_world) = None
   \<and> fs (world_of_files
           [(meta (getCachePaths (getCacheKey demo_runtime ''u'' JNull)), ''{}''),
            (response (getCachePaths (getCacheKey demo_runtime ''u'' JNull)), ''not json'')])
        (response (getCachePaths (getCacheKey demo_runtime ''u'' JNull)))
      = Some (File ''not json'')
   \<and> JSON_parse demo_runtime ''not json'' = None
   \<and> fst (getCachedResponse demo_runtime ''u'' JNull
           (world_of_files
              [(meta (getCachePaths (getCacheKey demo_runtime ''u'' JNull)), ''{}''),
               (response (getCachePaths (getCacheKey demo_runtime ''u'' JNull)), ''not json'')]))
      = None
   \<and> fst (getCachedResponse demo_runtime ''u'' JNull
           (world_of_files
              [(meta (getCachePaths (getCacheKey demo_runtime ''u'' JNull)), ''{}''),
               (response (getCachePaths (getCacheKey demo_runtime ''u'' JNull)), ''[1]'')]))
      = Some (JObj [], JArr [JNum 1])"
  using lookup_absent_unless_both_parse [of empty_world demo_runtime "''u''" JNull]
    lookup_absent_unless_both_parse
      [of "world_of_files
              [(meta (getCachePaths (getCacheKey demo_runtime ''u'' JNull)), ''{}''),
               (response (getCachePaths (getCacheKey demo_runtime ''u'' JNull)), ''not json'')]"
          demo_runtime "''u''" JNull]
    lookup_absent_unless_both_parse
      [of "world_of_files
              [(meta (getCachePaths (getCacheKey demo_runtime ''u'' JNull)), ''{}''),
               (response (getCachePaths (getCacheKey demo_runtime ''u'' JNull)), ''[1]'')]"
          demo_runtime "''u''" JNull "JObj []" "JArr [JNum 1]"]
  by (simp add: empty_world_def world_of_files_def parse_text_examples)

text \<open>
  Claim C9. When caching is switched off, or the request is not a POST with a body, or the
  body is not JSON, the wrapper is the transport: the call it makes is the caller's own
  \<^verbatim>\<open>(input, init)\<close>, it is the only one, its outcome is returned as it is, and no file or
  directory is touched.
\<close>

theorem passthrough_is_one_transport_call:
  assumes "enabled options = Some False
     \<or> (case init of
          None \<Rightarrow> True
        | Some i \<Rightarrow> init_method i \<noteq> Some ''POST'' \<or> init_body i = None \<or> init_body i = Some []
                    \<or> (\<exists>s. init_body i = Some s \<and> JSON_parse rt s = None))"
  shows "cachedFetch rt options T stackInfo url init w = fetch T url init w
     \<and> fst (cachedFetch rt options T stackInfo url init w) = fst (T url init)
     \<and> fs (snd (cachedFetch rt options T stackInfo url init w)) = fs w
     \<and> console (snd (cachedFetch rt options T stackInfo url init w)) = console w
     \<and> net_log (snd (cachedFetch rt options T stackInfo url init w)) = net_log w @ [(url, init)]"
proof -
  have "cachedFetch rt options T stackInfo url init w = fetch T url init w"
    using assms by (auto simp: cachedFetch_def Let_def split: option.splits)
  then show ?thesis
    by (simp add: fetch_def split: prod.splits)
qed

theorem passthrough_is_one_transport_call_witness:
  "JSON_parse demo_runtime ''not json'' = None
   \<and> cachedFetch demo_runtime \<lparr>enabled = None, ttlMs = None\<rparr>
        (constant_transport \<lparr>status = 200, statusText = ''OK'', headers = [], bodyText = ''hi''\<rparr>)
        ([], None) ''https://example/api''
        (Some \<lparr>init_method = Some ''POST'', init_body = Some ''not json''\<rparr>) empty_world
      = (Inr \<lparr>status = 200, statusText = ''OK'', headers = [], bodyText = ''hi''\<rparr>,
         empty_world\<lparr>clock := 5,
           net_log := [(''https://example/api'',
                        Some \<lparr>init_method = Some ''POST'', init_body = Some ''not json''\<rparr>)]\<rparr>)"
  using passthrough_is_one_transport_call [where options = "\<lparr>enabled = None, ttlMs = None\<rparr>"
      and init = "Some \<lparr>init_method = Some ''POST'', init_body = Some ''not json''\<rparr>"
      and rt = demo_runtime
      and T = "constant_transport \<lparr>status = 200, statusText = ''OK'', headers = [], bodyText = ''hi''\<rparr>"
      and stackInfo = "([], None)" and url = "''https://example/api''" and w = empty_world]
  by (simp add: parse_text_examples fetch_def constant_transport_def empty_world_def)

subsection \<open>The indices of an array as keys\<close>















subsection \<open>What a stored entry reads back as\<close>

lemma as_headers_strings:
  "as_headers (JObj (map (\<lambda>kv. (fst kv, JStr (f (snd kv)))) hs))
     = Some (map (\<lambda>kv. (fst kv, f (snd kv))) hs)"
  by (simp add: as_headers_def list_all_iff comp_def)

lemma as_body_to_json:
  "as_body (map_strs f (body_to_json b))
     = Some \<lparr>body_json = map_option (map_strs f) (body_json b),
             body_text = map_option f (body_text b)\<rparr>"
  by (cases "body_json b"; cases "body_text b") (simp_all add: as_body_def body_to_json_def)

lemma as_CachedResponse_snapshot:
  "as_CachedResponse (map_strs f (response_to_json r))
     = Some \<lparr>status = status r, statusText = f (statusText r),
             headers = map (\<lambda>kv. (fst kv, f (snd kv))) (headers r),
             body = \<lparr>body_json = map_option (map_strs f) (body_json (body r)),
                     body_text = map_option f (body_text (body r))\<rparr>,
             timestamp = timestamp r\<rparr>"
proof -
  have h: "as_headers (JObj (map ((\<lambda>kv. (fst kv, map_strs f (snd kv))) \<circ> (\<lambda>(k, v). (k, JStr v)))
                          (headers r)))
             = Some (map (\<lambda>kv. (fst kv, f (snd kv))) (headers r))"
    using as_headers_strings[of f "headers r"] by (simp add: comp_def case_prod_unfold)
  show ?thesis
    using as_body_to_json[of f "body r"] h
    by (simp add: as_CachedResponse_def response_to_json_def)
qed

lemma as_model_meta:
  "as_model (meta_to_json rt key url rb r stackInfo) = Some (extractModel rt rb)"
  by (cases "extractModel rt rb") (simp_all add: as_model_def meta_to_json_def Let_def)

subsection \<open>The files of an entry after it is stored\<close>

lemma sidecar_not_entry_file [simp]:
  "join SIDECAR_DIR n \<noteq> meta (getCachePaths k)"
  "join SIDECAR_DIR n \<noteq> response (getCachePaths k)"
  "join SIDECAR_DIR n \<noteq> request (getCachePaths k)"
  by (simp_all add: getCachePaths_def getCacheFolder_def Let_def join_def SIDECAR_DIR_def
        CACHE_DIR_def)

lemma writeFile_other:
  assumes "sidecarDir opts = Some SIDECAR_DIR" and "q \<noteq> p" and "fs w q = Some x"
    and "\<And>n. join SIDECAR_DIR n \<noteq> q"
  shows "fs (writeFile rt p v opts w) q = Some x"
proof -
  have d: "sidecar_dir_of p opts = SIDECAR_DIR"
    using assms(1) by (simp add: sidecar_dir_of_def)
  have "q \<notin> (\<lambda>e. join SIDECAR_DIR (fst e)) ` set sc" for sc :: "(string \<times> string) list"
    using assms(4) by auto
  then have "fs (write_sidecars SIDECAR_DIR sc (ensure_dir SIDECAR_DIR w)) q = Some x" for sc
    using assms(3) by (simp add: write_sidecars_other ensure_dir_keeps)
  then show ?thesis
    using assms(2) by (simp add: writeFile_def stringify_char d)
qed

lemma cacheResponse_files:
  "fs (cacheResponse rt url rb r stackInfo w) (response (getCachePaths (getCacheKey rt url rb)))
     = Some (File (JSON_stringify_pretty rt
                     (map_strs (leaf_ref rt DEFAULT_THRESHOLD) (response_to_json r))))"
  "fs (cacheResponse rt url rb r stackInfo w) (meta (getCachePaths (getCacheKey rt url rb)))
     = Some (File (JSON_stringify_pretty rt
                     (meta_to_json rt (getCacheKey rt url rb) url rb r stackInfo)))"
proof -
  let ?P = "getCachePaths (getCacheKey rt url rb)"
  let ?opts = "\<lparr>sidecarDir = Some SIDECAR_DIR, threshold = None\<rparr>"
  show "fs (cacheResponse rt url rb r stackInfo w) (response ?P)
     = Some (File (JSON_stringify_pretty rt
                     (map_strs (leaf_ref rt DEFAULT_THRESHOLD) (response_to_json r))))"
    by (simp add: cacheResponse_def Let_def writeFile_file stringify_char)
  define w2 where
    "w2 = writeFileSync (meta ?P)
            (JSON_stringify_pretty rt (meta_to_json rt (getCacheKey rt url rb) url rb r stackInfo))
            (if \<not> existsSync w (folder ?P) then mkdirSync (folder ?P) w else w)"
  define w3 where "w3 = (if \<not> existsSync w2 SIDECAR_DIR then mkdirSync SIDECAR_DIR w2 else w2)"
  define w4 where "w4 = writeFile rt (request ?P) rb ?opts w3"
  have c: "cacheResponse rt url rb r stackInfo w
             = writeFile rt (response ?P) (response_to_json r) ?opts w4"
    by (simp add: cacheResponse_def Let_def w2_def w3_def w4_def)
  let ?m = "Some (File (JSON_stringify_pretty rt
              (meta_to_json rt (getCacheKey rt url rb) url rb r stackInfo)))"
  have 2: "fs w2 (meta ?P) = ?m" by (simp add: w2_def)
  then have 3: "fs w3 (meta ?P) = ?m" by (simp add: w3_def)
  have 4: "fs w4 (meta ?P) = ?m"
    unfolding w4_def by (rule writeFile_other[OF _ _ 3]) simp_all
  show "fs (cacheResponse rt url rb r stackInfo w) (meta ?P) = ?m"
    unfolding c by (rule writeFile_other[OF _ _ 4]) simp_all
qed

lemma writeFile_frame [simp]:
  "clock (writeFile rt p v opts w) = clock w"
  "console (writeFile rt p v opts w) = console w"
  "net_log (writeFile rt p v opts w) = net_log w"
  by (simp_all add: writeFile_def stringify_char)

lemma cacheResponse_frame [simp]:
  "clock (cacheResponse rt url rb r stackInfo w) = clock w"
  "console (cacheResponse rt url rb r stackInfo w) = console w"
  "net_log (cacheResponse rt url rb r stackInfo w) = net_log w"
  by (simp_all add: cacheResponse_def Let_def)

text \<open>A lookup right after a store, for a runtime that reads back what it wrote.\<close>

lemma lookup_after_store:
  assumes "JSON_parse rt (JSON_stringify_pretty rt
             (meta_to_json rt (getCacheKey rt url rb) url rb r stackInfo))
           = Some (meta_to_json rt (getCacheKey rt url rb) url rb r stackInfo)"
    and "JSON_parse rt (JSON_stringify_pretty rt
             (map_strs (leaf_ref rt DEFAULT_THRESHOLD) (response_to_json r)))
           = Some (map_strs (leaf_ref rt DEFAULT_THRESHOLD) (response_to_json r))"
    and "fs w' = fs (cacheResponse rt url rb r stackInfo w)"
  shows "getCachedResponse rt url rb w'
           = (Some (meta_to_json rt (getCacheKey rt url rb) url rb r stackInfo,
                    map_strs (leaf_ref rt DEFAULT_THRESHOLD) (response_to_json r)), w')"
  using assms cacheResponse_files[of rt url rb r stackInfo w]
  by (simp add: getCachedResponse_def read_entry_def Let_def existsSync_def readFileSync_def)

lemma first_call_is_a_miss:
  assumes "init = Some \<lparr>init_method = Some ''POST'', init_body = Some bodyStr\<rparr>"
    and "bodyStr \<noteq> []" and "JSON_parse rt bodyStr = Some rb"
    and "enabled options \<noteq> Some False"
    and "fs w (meta (getCachePaths (getCacheKey rt url rb))) = None"
    and "T url init = (Inr res, elapsed)"
  shows "\<exists>w2. cachedFetch rt options T stackInfo url init w
           = (Inr res, cacheResponse rt url rb (snapshot_of rt res (clock w + elapsed)) stackInfo w2)
         \<and> net_log w2 = net_log w @ [(url, init)]"
proof -
  have on: "(case enabled options of None \<Rightarrow> True | Some b \<Rightarrow> b)"
    using assms(4) by (cases "enabled options") auto
  have l: "getCachedResponse rt url rb w = (None, w)"
    using assms(5) by (simp add: getCachedResponse_def Let_def existsSync_def)
  have c: "cachedFetch rt options T stackInfo url init w
             = fetch_and_cache rt T stackInfo url init rb w"
    using on assms(1,2,3) l by (simp add: cachedFetch_def Let_def)
  show ?thesis
    unfolding c using assms(6)
    by (simp add: fetch_and_cache_def Let_def fetch_def) (rule exI, rule conjI, rule refl, simp)
qed

lemma second_call_is_a_hit:
  assumes "init = Some \<lparr>init_method = Some ''POST'', init_body = Some bodyStr\<rparr>"
    and "bodyStr \<noteq> []" and "JSON_parse rt bodyStr = Some rb"
    and "enabled options \<noteq> Some False"
    and "JSON_parse rt (JSON_stringify_pretty rt
             (meta_to_json rt (getCacheKey rt url rb) url rb r stackInfo))
           = Some (meta_to_json rt (getCacheKey rt url rb) url rb r stackInfo)"
    and "JSON_parse rt (JSON_stringify_pretty rt
             (map_strs (leaf_ref rt DEFAULT_THRESHOLD) (response_to_json r)))
           = Some (map_strs (leaf_ref rt DEFAULT_THRESHOLD) (response_to_json r))"
    and "fs w' = fs (cacheResponse rt url rb r stackInfo w)"
    and "clock w' - timestamp r < (case ttlMs options of None \<Rightarrow> 60 * 60 * 1000 | Some t \<Rightarrow> t)"
  shows "\<exists>hit w''. cachedFetch rt options T stackInfo' url init w' = (Inr hit, w'')
           \<and> net_log w'' = net_log w' \<and> fs w'' = fs w'
           \<and> status hit = status r
           \<and> statusText hit = leaf_ref rt DEFAULT_THRESHOLD (statusText r)
           \<and> headers hit = map (\<lambda>kv. (fst kv, leaf_ref rt DEFAULT_THRESHOLD (snd kv))) (headers r)
           \<and> bodyText hit
               = (case body_json (body r) of
                    Some j \<Rightarrow> JSON_stringify rt (map_strs (leaf_ref rt DEFAULT_THRESHOLD) j)
                  | None \<Rightarrow>
                      (case body_text (body r) of
                         Some t \<Rightarrow> leaf_ref rt DEFAULT_THRESHOLD t
                       | None \<Rightarrow> []))"
proof -
  have on: "(case enabled options of None \<Rightarrow> True | Some b \<Rightarrow> b)"
    using assms(4) by (cases "enabled options") auto
  note l = lookup_after_store[OF assms(5,6,7)]
  show ?thesis
    using on assms(1,2,3,8) l
    by (cases "body_json (body r)"; cases "body_text (body r)")
       (simp_all add: cachedFetch_def Let_def as_model_meta as_CachedResponse_snapshot)
qed

text \<open>
  Claim C1 does not hold of the code. \<^verbatim>\<open>cacheResponse\<close> writes the response snapshot through
  the sidecar codec, and \<^verbatim>\<open>getCachedResponse\<close> reads it back with plain \<^verbatim>\<open>JSON.parse\<close>, so a
  string of the snapshot that went to a sidecar comes back as its reference. Here a POST
  whose live response is a raw text body of more than 1000 characters is issued twice:
  the first call misses and returns the live response; the second, within the time to
  live, is served from the cache without a call of the transport, and its body is the
  marker followed by a hash, not the text.
\<close>

theorem cached_hit_serves_placeholder:
  assumes "init = Some \<lparr>init_method = Some ''POST'', init_body = Some bodyStr\<rparr>"
    and "bodyStr \<noteq> []" and "JSON_parse rt bodyStr = Some rb"
    and "enabled options \<noteq> Some False"
    and "fs w (meta (getCachePaths (getCacheKey rt url rb))) = None"
    and "T url init = (Inr res, elapsed)"
    and "JSON_parse rt (bodyText res) = None"
    and "DEFAULT_THRESHOLD < int (length (bodyText res))"
    and "match_DATA_URL_REGEX (bodyText res) = None"
    and "JSON_parse rt (JSON_stringify_pretty rt
           (meta_to_json rt (getCacheKey rt url rb) url rb
              (snapshot_of rt res (clock w + elapsed)) stackInfo))
         = Some (meta_to_json rt (getCacheKey rt url rb) url rb
                   (snapshot_of rt res (clock w + elapsed)) stackInfo)"
    and "JSON_parse rt (JSON_stringify_pretty rt
           (fst (stringify_walk rt DEFAULT_THRESHOLD
                   (response_to_json (snapshot_of rt res (clock w + elapsed))) [])))
         = Some (fst (stringify_walk rt DEFAULT_THRESHOLD
                        (response_to_json (snapshot_of rt res (clock w + elapsed))) []))"
    and "now - (clock w + elapsed) < (case ttlMs options of None \<Rightarrow> 60 * 60 * 1000 | Some t \<Rightarrow> t)"
  shows "\<exists>w1 hit w2.
           cachedFetch rt options T stackInfo url init w = (Inr res, w1)
         \<and> cachedFetch rt options T stackInfo url init (w1\<lparr>clock := now\<rparr>) = (Inr hit, w2)
         \<and> net_log w2 = net_log w1
         \<and> bodyText hit = SIDECAR_MARKER @ hashValue rt (bodyText res)
         \<and> bodyText hit \<noteq> bodyText res"
proof -
  define r where "r = snapshot_of rt res (clock w + elapsed)"
  from first_call_is_a_miss[where T = T and w = w and rt = rt and url = url and stackInfo = stackInfo,
      OF assms(1-6)] obtain w0
    where first: "cachedFetch rt options T stackInfo url init w
                    = (Inr res, cacheResponse rt url rb r stackInfo w0)"
    unfolding r_def by blast
  define w1 where "w1 = cacheResponse rt url rb r stackInfo w0"
  have b: "body r = \<lparr>body_json = None, body_text = Some (bodyText res)\<rparr>"
    using assms(7) by (simp add: r_def snapshot_of_def)
  have t: "timestamp r = clock w + elapsed"
    by (simp add: r_def snapshot_of_def)
  have rd: "JSON_parse rt (JSON_stringify_pretty rt
             (map_strs (leaf_ref rt DEFAULT_THRESHOLD) (response_to_json r)))
           = Some (map_strs (leaf_ref rt DEFAULT_THRESHOLD) (response_to_json r))"
    using assms(11) by (simp add: walk_char r_def)
  have f: "fs (w1\<lparr>clock := now\<rparr>) = fs (cacheResponse rt url rb r stackInfo w0)"
    by (simp add: w1_def)
  have fresh: "clock (w1\<lparr>clock := now\<rparr>) - timestamp r
                 < (case ttlMs options of None \<Rightarrow> 60 * 60 * 1000 | Some t \<Rightarrow> t)"
    using assms(12) by (simp add: t)
  from second_call_is_a_hit[where T = T and stackInfo' = stackInfo and rt = rt and url = url,
      OF assms(1-4) assms(10)[folded r_def] rd f fresh]
  obtain hit w2
    where second: "cachedFetch rt options T stackInfo url init (w1\<lparr>clock := now\<rparr>) = (Inr hit, w2)"
      and n: "net_log w2 = net_log (w1\<lparr>clock := now\<rparr>)"
      and bt: "bodyText hit = leaf_ref rt DEFAULT_THRESHOLD (bodyText res)"
    by (auto simp: b)
  have ref: "bodyText hit = SIDECAR_MARKER @ hashValue rt (bodyText res)"
    using bt assms(8) by (simp add: leaf_ref_def processLargeString_plain[OF assms(9)])
  have "length (SIDECAR_MARKER @ hashValue rt (bodyText res)) \<le> 24"
    by (simp add: hashValue_def)
  moreover have "24 < length (bodyText res)"
    using assms(8) by (simp add: DEFAULT_THRESHOLD_def)
  ultimately have "length (SIDECAR_MARKER @ hashValue rt (bodyText res)) \<noteq> length (bodyText res)"
    by linarith
  then have "SIDECAR_MARKER @ hashValue rt (bodyText res) \<noteq> bodyText res"
    by metis
  then have "bodyText hit \<noteq> bodyText res"
    using ref by simp
  with first second n ref show ?thesis
    unfolding w1_def by auto
qed

lemma parse_text_letter: "parse_text (CHR ''a'' # xs) = None"
  by (simp add: parse_text_def parse_number_def is_ws_def is_digit_def dq_def Let_def)

theorem cached_hit_serves_placeholder_witness:
  "\<exists>w1 hit w2.
     cachedFetch demo_runtime \<lparr>enabled = None, ttlMs = None\<rparr> (constant_transport long_text_response)
       ([], None) ''https://example/api''
       (Some \<lparr>init_method = Some ''POST'', init_body = Some ''{}''\<rparr>) empty_world
       = (Inr long_text_response, w1)
   \<and> cachedFetch demo_runtime \<lparr>enabled = None, ttlMs = None\<rparr> (constant_transport long_text_response)
       ([], None) ''https://example/api''
       (Some \<lparr>init_method = Some ''POST'', init_body = Some ''{}''\<rparr>) (w1\<lparr>clock := 10\<rparr>)
       = (Inr hit, w2)
   \<and> net_log w2 = net_log w1
   \<and> bodyText hit = SIDECAR_MARKER @ hashValue demo_runtime (bodyText long_text_response)
   \<and> bodyText hit \<noteq> bodyText long_text_response"
proof (rule cached_hit_serves_placeholder [where bodyStr = "''{}''" and rb = "JObj []" and elapsed = 5])
  show "Some \<lparr>init_method = Some ''POST'', init_body = Some ''{}''\<rparr>
          = Some \<lparr>init_method = Some ''POST'', init_body = Some ''{}''\<rparr>" by simp
  show "''{}'' \<noteq> []" by simp
  show "JSON_parse demo_runtime ''{}'' = Some (JObj [])"
    by (simp add: parse_text_examples)
  show "enabled \<lparr>enabled = None, ttlMs = None\<rparr> \<noteq> Some False" by simp
  show "fs empty_world
          (meta (getCachePaths (getCacheKey demo_runtime ''https://example/api'' (JObj [])))) = None"
    by (simp add: empty_world_def)
  show "constant_transport long_text_response ''https://example/api''
          (Some \<lparr>init_method = Some ''POST'', init_body = Some ''{}''\<rparr>)
        = (Inr long_text_response, 5)"
    by (simp add: constant_transport_def)
  show "JSON_parse demo_runtime (bodyText long_text_response) = None"
    by (simp add: long_text_response_def parse_text_letter)
  show "DEFAULT_THRESHOLD < int (length (bodyText long_text_response))"
    by (simp add: long_text_response_def DEFAULT_THRESHOLD_def)
  show "match_DATA_URL_REGEX (bodyText long_text_response) = None"
    by (simp add: long_text_response_def match_DATA_URL_REGEX_def)
  show "JSON_parse demo_runtime (JSON_stringify_pretty demo_runtime
           (meta_to_json demo_runtime (getCacheKey demo_runtime ''https://example/api'' (JObj []))
              ''https://example/api'' (JObj [])
              (snapshot_of demo_runtime long_text_response (clock empty_world + 5)) ([], None)))
         = Some (meta_to_json demo_runtime (getCacheKey demo_runtime ''https://example/api'' (JObj []))
                   ''https://example/api'' (JObj [])
                   (snapshot_of demo_runtime long_text_response (clock empty_world + 5)) ([], None))"
    by code_simp
  show "JSON_parse demo_runtime (JSON_stringify_pretty demo_runtime
           (fst (stringify_walk demo_runtime DEFAULT_THRESHOLD
                   (response_to_json (snapshot_of demo_runtime long_text_response
                      (clock empty_world + 5))) [])))
         = Some (fst (stringify_walk demo_runtime DEFAULT_THRESHOLD
                        (response_to_json (snapshot_of demo_runtime long_text_response
                           (clock empty_world + 5))) []))"
    by code_simp
  show "10 - (clock empty_world + 5)
          < (case ttlMs \<lparr>enabled = None, ttlMs = None\<rparr> of None \<Rightarrow> 60 * 60 * 1000 | Some t \<Rightarrow> t)"
    by (simp add: empty_world_def)
qed

end
